theory Spec2Isabelle
  imports Main "HOL-Library.AList"
begin

section \<open>Strings and paths\<close>

text \<open>
  File names and file contents are \<open>string\<close>s. The text a conversion produces is a
  \<open>string\<close> too and is stored as it is: the UTF-8 encoding step of the text-mode
  \<open>open(..., 'w', encoding='utf-8')\<close> is not modelled.
\<close>

text \<open>\<open>os.path.basename(p)\<close> is \<open>p[p.rfind('/') + 1:]\<close>: what follows the last slash.\<close>

definition basename :: "string \<Rightarrow> string" where
  "basename p = rev (takeWhile (\<lambda>c. c \<noteq> CHR ''/'') (rev p))"

text \<open>\<open>s.split('/')\<close>.\<close>

fun split_slash :: "string \<Rightarrow> string list" where
  "split_slash [] = [[]]"
| "split_slash (c # cs) =
     (if c = CHR ''/'' then [] # split_slash cs
      else (c # hd (split_slash cs)) # tl (split_slash cs))"

text \<open>
  A \<open>pathlib.Path\<close> is modelled by its parts below the root. All paths of the service are
  absolute, because both base directories are. Parsing a string drops empty segments and
  \<open>.\<close> segments and keeps \<open>..\<close> segments, as \<open>pathlib\<close> does.
\<close>

type_synonym path = "string list"

definition parse_parts :: "string \<Rightarrow> path" where
  "parse_parts s = filter (\<lambda>x. x \<noteq> [] \<and> x \<noteq> ''.'') (split_slash s)"

text \<open>\<open>base / s\<close>: an absolute right operand replaces the base.\<close>

definition path_div :: "path \<Rightarrow> string \<Rightarrow> path" where
  "path_div base s =
     (if s \<noteq> [] \<and> hd s = CHR ''/'' then parse_parts s else base @ parse_parts s)"

text \<open>\<open>Path.name\<close>, \<open>Path.suffix\<close> and \<open>Path.stem\<close> (the final dot splits the name, unless it
  is the first or the last character).\<close>

definition path_name :: "path \<Rightarrow> string" where
  "path_name p = (if p = [] then [] else last p)"

definition rfind :: "char \<Rightarrow> string \<Rightarrow> int" where
  "rfind c s =
     (case filter (\<lambda>i. s ! i = c) (rev [0..<length s]) of [] \<Rightarrow> - 1 | i # _ \<Rightarrow> int i)"

definition name_suffix :: "string \<Rightarrow> string" where
  "name_suffix name =
     (let i = rfind CHR ''.'' name
      in if 0 < i \<and> i < int (length name) - 1 then drop (nat i) name else [])"

definition name_stem :: "string \<Rightarrow> string" where
  "name_stem name =
     (let i = rfind CHR ''.'' name
      in if 0 < i \<and> i < int (length name) - 1 then take (nat i) name else name)"

text \<open>\<open>Path(s).stem\<close> and \<open>Path(s).suffix\<close> of a string.\<close>

definition Path_stem :: "string \<Rightarrow> string" where
  "Path_stem s = name_stem (path_name (parse_parts s))"

definition Path_suffix :: "string \<Rightarrow> string" where
  "Path_suffix s = name_suffix (path_name (parse_parts s))"

definition endswith :: "string \<Rightarrow> string \<Rightarrow> bool" where
  "endswith s suf = (length suf \<le> length s \<and> drop (length s - length suf) s = suf)"

definition UPLOAD_DIR :: path where
  "UPLOAD_DIR = [''app'', ''uploads'']"

definition CONVERTED_DIR :: path where
  "CONVERTED_DIR = [''app'', ''converted'']"

section \<open>The identity token\<close>

text \<open>
  \<open>str(uuid.uuid4())[:8]\<close>. The random UUID is an input of each request, given by its
  integer value; \<open>str\<close> prints the value as 32 lower-case hexadecimal digits in groups of
  8, 4, 4, 4 and 12.
\<close>

definition hex_digit :: "int \<Rightarrow> char" where
  "hex_digit n = ''0123456789abcdef'' ! nat (n mod 16)"

definition hex32 :: "int \<Rightarrow> string" where
  "hex32 n = map (\<lambda>i. hex_digit (n div 16 ^ i)) (rev [0..<32])"

definition uuid_str :: "int \<Rightarrow> string" where
  "uuid_str n =
     (let h = hex32 n
      in take 8 h @ ''-'' @ take 4 (drop 8 h) @ ''-'' @ take 4 (drop 12 h) @ ''-''
         @ take 4 (drop 16 h) @ ''-'' @ drop 20 h)"

definition unique_id_of :: "int \<Rightarrow> string" where
  "unique_id_of uuid4 = take 8 (uuid_str uuid4)"

section \<open>The file system\<close>

text \<open>
  A file system is an association list from absolute paths to nodes; the root always
  exists. A regular file has its content and modification time, a directory its size and
  modification time as \<open>stat\<close> reports them. There are no symbolic links, no permissions
  and no limits on names or space; the time stamps of a directory do not change when an
  entry is added or removed.
\<close>

datatype node = File string nat | Dir nat nat

type_synonym fs = "(path \<times> node) list"

definition lookup :: "fs \<Rightarrow> path \<Rightarrow> node option" where
  "lookup fs p = (if p = [] then Some (Dir 0 0) else map_of fs p)"

definition is_dir_node :: "fs \<Rightarrow> path \<Rightarrow> bool" where
  "is_dir_node fs p = (case lookup fs p of Some (Dir _ _) \<Rightarrow> True | _ \<Rightarrow> False)"

text \<open>
  Path resolution as the kernel does it: each step needs the directory reached so far,
  \<open>..\<close> moves to the parent (the root is its own parent). The node named by the last
  part need not exist.
\<close>

fun walk :: "fs \<Rightarrow> path \<Rightarrow> string list \<Rightarrow> path option" where
  "walk fs cur [] = Some cur"
| "walk fs cur (c # cs) =
     (if is_dir_node fs cur
      then walk fs (if c = ''..'' then butlast cur else cur @ [c]) cs
      else None)"

definition resolve :: "fs \<Rightarrow> path \<Rightarrow> path option" where
  "resolve fs p = walk fs [] p"

definition path_exists :: "fs \<Rightarrow> path \<Rightarrow> bool" where
  "path_exists fs p =
     (case resolve fs p of None \<Rightarrow> False
      | Some q \<Rightarrow> (case lookup fs q of None \<Rightarrow> False | Some _ \<Rightarrow> True))"

definition path_is_file :: "fs \<Rightarrow> path \<Rightarrow> bool" where
  "path_is_file fs p =
     (case resolve fs p of None \<Rightarrow> False
      | Some q \<Rightarrow> (case lookup fs q of Some (File _ _) \<Rightarrow> True | _ \<Rightarrow> False))"

datatype exn = HTTPException nat string | OtherException string

text \<open>\<open>open(p, 'w')\<close> or \<open>open(p, 'wb')\<close> followed by one \<open>write\<close>, at time \<open>now\<close>.\<close>

definition write_file :: "fs \<Rightarrow> path \<Rightarrow> string \<Rightarrow> nat \<Rightarrow> exn + fs" where
  "write_file fs p data now =
     (case resolve fs p of
        None \<Rightarrow> Inl (OtherException ''No such file or directory'')
      | Some q \<Rightarrow>
          (case lookup fs q of
             Some (Dir _ _) \<Rightarrow> Inl (OtherException ''Is a directory'')
           | _ \<Rightarrow> Inr (AList.update q (File data now) fs)))"

definition unlink :: "fs \<Rightarrow> path \<Rightarrow> exn + fs" where
  "unlink fs p =
     (case resolve fs p of
        None \<Rightarrow> Inl (OtherException ''No such file or directory'')
      | Some q \<Rightarrow>
          (case lookup fs q of
             None \<Rightarrow> Inl (OtherException ''No such file or directory'')
           | Some (Dir _ _) \<Rightarrow> Inl (OtherException ''Is a directory'')
           | Some (File _ _) \<Rightarrow> Inr (AList.delete q fs)))"

text \<open>\<open>os.stat\<close>: size and modification time.\<close>

definition stat :: "fs \<Rightarrow> path \<Rightarrow> exn + (nat \<times> nat)" where
  "stat fs p =
     (case resolve fs p of
        None \<Rightarrow> Inl (OtherException ''No such file or directory'')
      | Some q \<Rightarrow>
          (case lookup fs q of
             None \<Rightarrow> Inl (OtherException ''No such file or directory'')
           | Some (Dir sz t) \<Rightarrow> Inr (sz, t)
           | Some (File data t) \<Rightarrow> Inr (length data, t)))"

text \<open>
  \<open>Path.iterdir()\<close> and \<open>Path.glob("*.md")\<close> on a directory given without \<open>..\<close> parts: the
  entries directly below it, of either kind, in the order of the file system; the glob
  keeps the names that end in \<open>.md\<close> (hidden names included) and is empty when the
  directory is missing.
\<close>

definition entries :: "fs \<Rightarrow> path \<Rightarrow> path list" where
  "entries fs d =
     filter (\<lambda>p. p \<noteq> [] \<and> butlast p = d) (remdups (map fst fs))"

definition glob_md :: "fs \<Rightarrow> path \<Rightarrow> path list" where
  "glob_md fs d =
     (if path_exists fs d \<and> is_dir_node fs d
      then filter (\<lambda>p. endswith (last p) ''.md'') (entries fs d)
      else [])"

section \<open>Requests, responses and the converter\<close>

text \<open>
  The external converter reads the file at a path and raises, returns nothing, or returns
  a result with its text content. It does not change the file system.
\<close>

datatype outcome = Raises string | Returned "string option"

type_synonym converter = "fs \<Rightarrow> path \<Rightarrow> outcome"

datatype file_entry = FileEntry string nat nat string

text \<open>
  The JSON bodies, without their constant \<open>status\<close> and \<open>message\<close> fields. A path in a body is
  the path object that the source prints with \<open>str\<close>. The fields of \<open>ConvertBody\<close>:
  \<open>original_filename\<close>, \<open>converted_filename\<close>, \<open>input_path\<close> (absent for \<open>POST /convert\<close>),
  \<open>output_path\<close>, \<open>file_size\<close>, \<open>original_extension\<close>, \<open>conversion_id\<close>.
\<close>

datatype body =
    ConvertBody string string "path option" path nat string string
  | UploadBody string path nat
  | ListBody "file_entry list" nat
  | MessageBody string

text \<open>
  \<open>HTTPError\<close> is the response the framework builds from a raised \<open>HTTPException\<close>,
  \<open>ServerError\<close> the one for an exception that no handler caught. \<open>ValidationError\<close> is
  the framework's answer to a request that lacks a required field, \<open>RedirectResponse\<close> its
  redirect to another path.
\<close>

datatype response =
    JSONResponse nat body
  | FileResponse path string string
  | HTTPError nat string
  | ServerError
  | ValidationError
  | RedirectResponse string

fun status_code :: "response \<Rightarrow> nat" where
  "status_code (JSONResponse c _) = c"
| "status_code (FileResponse _ _ _) = 200"
| "status_code (HTTPError c _) = c"
| "status_code ServerError = 500"
| "status_code ValidationError = 422"
| "status_code (RedirectResponse _) = 307"

fun converted_filename :: "response \<Rightarrow> string option" where
  "converted_filename (JSONResponse _ (ConvertBody _ n _ _ _ _ _)) = Some n"
| "converted_filename _ = None"

fun conversion_id :: "response \<Rightarrow> string option" where
  "conversion_id (JSONResponse _ (ConvertBody _ _ _ _ _ _ i)) = Some i"
| "conversion_id _ = None"

text \<open>What the framework sends for a \<open>FileResponse\<close>: the content of a regular file.\<close>

definition read_file :: "fs \<Rightarrow> path \<Rightarrow> string option" where
  "read_file fs p =
     (case resolve fs p of None \<Rightarrow> None
      | Some q \<Rightarrow> (case lookup fs q of Some (File data _) \<Rightarrow> Some data | _ \<Rightarrow> None))"

fun digits :: "nat \<Rightarrow> string" where
  "digits n =
     (if n < 10 then [''0123456789'' ! n]
      else digits (n div 10) @ [''0123456789'' ! (n mod 10)])"

text \<open>\<open>str(e)\<close>; for an \<open>HTTPException\<close> it is the status code, a colon and the detail.\<close>

fun str_exn :: "exn \<Rightarrow> string" where
  "str_exn (HTTPException c d) = digits c @ '': '' @ d"
| "str_exn (OtherException m) = m"

definition quoted :: "string \<Rightarrow> string" where
  "quoted s = [CHR 0x27] @ s @ [CHR 0x27]"

text \<open>The truth value of an \<open>Optional[str]\<close>: neither \<open>None\<close> nor empty.\<close>

fun truthy :: "string option \<Rightarrow> bool" where
  "truthy None = False"
| "truthy (Some s) = (s \<noteq> [])"

text \<open>\<open>if output_filename: ... else: ...\<close>, the same four lines in the three handlers.\<close>

definition md_filename_of :: "string option \<Rightarrow> string \<Rightarrow> string \<Rightarrow> string" where
  "md_filename_of output_filename original_name unique_id =
     (if truthy output_filename then the output_filename @ ''.md''
      else original_name @ ''_'' @ unique_id @ ''.md'')"

section \<open>Conversion by file name\<close>

text \<open>The inner \<open>try\<close> of \<open>convert_file_by_name\<close>: its own 422 is caught and wrapped again.\<close>

definition convert_step :: "converter \<Rightarrow> fs \<Rightarrow> path \<Rightarrow> string \<Rightarrow> exn + string" where
  "convert_step md_convert fs input_file_path file_name =
     (case (case md_convert fs input_file_path of
              Raises m \<Rightarrow> Inl (OtherException m)
            | Returned None \<Rightarrow>
                Inl (HTTPException 422 (''Unable to convert file: '' @ file_name))
            | Returned (Some text_content) \<Rightarrow>
                (if text_content = []
                 then Inl (HTTPException 422 (''Unable to convert file: '' @ file_name))
                 else Inr text_content))
      of Inl e \<Rightarrow> Inl (HTTPException 422 (''Conversion failed: '' @ str_exn e))
       | Inr text_content \<Rightarrow> Inr text_content)"

definition convert_file_by_name_try ::
  "converter \<Rightarrow> int \<Rightarrow> nat \<Rightarrow> string \<Rightarrow> string option \<Rightarrow> fs \<Rightarrow> exn + (response \<times> fs)" where
  "convert_file_by_name_try md_convert uuid4 now file_name0 output_filename fs =
     (if file_name0 = [] then Inl (HTTPException 400 ''No file_name provided'')
      else
        let file_name = basename file_name0;
            input_file_path = path_div UPLOAD_DIR file_name
        in if \<not> path_exists fs input_file_path
           then Inl (HTTPException 404
                  (''File '' @ quoted file_name @ '' not found in uploads directory''))
           else if \<not> path_is_file fs input_file_path
           then Inl (HTTPException 400 (quoted file_name @ '' is not a valid file''))
           else
             let unique_id = unique_id_of uuid4;
                 original_name = Path_stem file_name;
                 file_extension = Path_suffix file_name
             in case convert_step md_convert fs input_file_path file_name of
                  Inl e \<Rightarrow> Inl e
                | Inr text_content \<Rightarrow>
                    let md_filename = md_filename_of output_filename original_name unique_id;
                        output_path = path_div CONVERTED_DIR md_filename
                    in case write_file fs output_path text_content now of
                         Inl e \<Rightarrow> Inl e
                       | Inr fs' \<Rightarrow>
                           Inr (JSONResponse 200
                                  (ConvertBody file_name md_filename (Some input_file_path)
                                     output_path (length text_content) file_extension
                                     unique_id),
                                fs'))"

text \<open>The outer handlers: an \<open>HTTPException\<close> passes, anything else becomes a 500.\<close>

definition convert_file_by_name ::
  "converter \<Rightarrow> int \<Rightarrow> nat \<Rightarrow> string \<Rightarrow> string option \<Rightarrow> fs \<Rightarrow> response \<times> fs" where
  "convert_file_by_name md_convert uuid4 now file_name output_filename fs =
     (case convert_file_by_name_try md_convert uuid4 now file_name output_filename fs of
        Inr r \<Rightarrow> r
      | Inl (HTTPException c d) \<Rightarrow> (HTTPError c d, fs)
      | Inl (OtherException m) \<Rightarrow> (HTTPError 500 (''Internal server error: '' @ m), fs))"

text \<open>The handler of \<open>GET /convert-by-filename/{file_name}\<close>, translated from its own text.\<close>

definition convert_step_get :: "converter \<Rightarrow> fs \<Rightarrow> path \<Rightarrow> string \<Rightarrow> exn + string" where
  "convert_step_get md_convert fs input_file_path file_name =
     (case (case md_convert fs input_file_path of
              Raises m \<Rightarrow> Inl (OtherException m)
            | Returned None \<Rightarrow>
                Inl (HTTPException 422 (''Unable to convert file: '' @ file_name))
            | Returned (Some text_content) \<Rightarrow>
                (if text_content = []
                 then Inl (HTTPException 422 (''Unable to convert file: '' @ file_name))
                 else Inr text_content))
      of Inl e \<Rightarrow> Inl (HTTPException 422 (''Conversion failed: '' @ str_exn e))
       | Inr text_content \<Rightarrow> Inr text_content)"

definition convert_file_by_name_get_try ::
  "converter \<Rightarrow> int \<Rightarrow> nat \<Rightarrow> string \<Rightarrow> string option \<Rightarrow> fs \<Rightarrow> exn + (response \<times> fs)" where
  "convert_file_by_name_get_try md_convert uuid4 now file_name0 output_filename fs =
     (if file_name0 = [] then Inl (HTTPException 400 ''No file_name provided'')
      else
        let file_name = basename file_name0;
            input_file_path = path_div UPLOAD_DIR file_name
        in if \<not> path_exists fs input_file_path
           then Inl (HTTPException 404
                  (''File '' @ quoted file_name @ '' not found in uploads directory''))
           else if \<not> path_is_file fs input_file_path
           then Inl (HTTPException 400 (quoted file_name @ '' is not a valid file''))
           else
             let unique_id = unique_id_of uuid4;
                 original_name = Path_stem file_name;
                 file_extension = Path_suffix file_name
             in case convert_step_get md_convert fs input_file_path file_name of
                  Inl e \<Rightarrow> Inl e
                | Inr text_content \<Rightarrow>
                    let md_filename = md_filename_of output_filename original_name unique_id;
                        output_path = path_div CONVERTED_DIR md_filename
                    in case write_file fs output_path text_content now of
                         Inl e \<Rightarrow> Inl e
                       | Inr fs' \<Rightarrow>
                           Inr (JSONResponse 200
                                  (ConvertBody file_name md_filename (Some input_file_path)
                                     output_path (length text_content) file_extension
                                     unique_id),
                                fs'))"

definition convert_file_by_name_get ::
  "converter \<Rightarrow> int \<Rightarrow> nat \<Rightarrow> string \<Rightarrow> string option \<Rightarrow> fs \<Rightarrow> response \<times> fs" where
  "convert_file_by_name_get md_convert uuid4 now file_name output_filename fs =
     (case convert_file_by_name_get_try md_convert uuid4 now file_name output_filename fs of
        Inr r \<Rightarrow> r
      | Inl (HTTPException c d) \<Rightarrow> (HTTPError c d, fs)
      | Inl (OtherException m) \<Rightarrow> (HTTPError 500 (''Internal server error: '' @ m), fs))"

section \<open>The routes of the conversion by file name\<close>

text \<open>
  The two handlers are bound by their decorators and parameter declarations:
  \<^item> \<open>@app.post("/convert-by-filename")\<close> with \<open>file_name: str = Form(...)\<close> and
    \<open>output_filename: Optional[str] = Form(None)\<close>. An empty form value counts as a missing
    one: the required \<open>file_name\<close> is then refused with 422 before the handler runs, and the
    optional \<open>output_filename\<close> takes its default \<open>None\<close>.
  \<^item> \<open>@app.get("/convert-by-filename/{file_name}")\<close> with \<open>file_name: str\<close> and
    \<open>output_filename: Optional[str] = Query(None)\<close>. The path parameter matches one non-empty
    segment without a slash, on the decoded request path; the query value arrives as it is.
  A request path that matches no route is answered by the router: with a redirect when the
  path ends in a slash and matches a route once its trailing slashes are removed, with
  404 otherwise. No other route of the service matches a path that starts with
  \<open>/convert-by-filename\<close>.
\<close>

definition match_segment :: "string \<Rightarrow> string \<Rightarrow> string option" where
  "match_segment pre path =
     (let n = length pre
      in if take n path = pre \<and> drop n path \<noteq> [] \<and> CHR ''/'' \<notin> set (drop n path)
         then Some (drop n path) else None)"

definition rstrip_slash :: "string \<Rightarrow> string" where
  "rstrip_slash s = rev (dropWhile (\<lambda>c. c = CHR ''/'') (rev s))"

definition no_route :: "string \<Rightarrow> response" where
  "no_route path =
     (if path \<noteq> [] \<and> last path = CHR ''/''
      then (if rstrip_slash path = ''/convert-by-filename''
            then RedirectResponse (rstrip_slash path)
            else (case match_segment ''/convert-by-filename/'' (rstrip_slash path) of
                    Some _ \<Rightarrow> RedirectResponse (rstrip_slash path)
                  | None \<Rightarrow> HTTPError 404 ''Not Found''))
      else HTTPError 404 ''Not Found'')"

fun form_optional :: "string option \<Rightarrow> string option" where
  "form_optional None = None"
| "form_optional (Some v) = (if v = [] then None else Some v)"

text \<open>A \<open>POST /convert-by-filename\<close> request with the form fields \<open>file_name\<close> and
  \<open>output_filename\<close>.\<close>

definition post_convert_by_filename ::
  "converter \<Rightarrow> int \<Rightarrow> nat \<Rightarrow> string \<Rightarrow> string option \<Rightarrow> fs \<Rightarrow> response \<times> fs" where
  "post_convert_by_filename md_convert uuid4 now file_name output_filename fs =
     (if file_name = [] then (ValidationError, fs)
      else convert_file_by_name md_convert uuid4 now file_name
             (form_optional output_filename) fs)"

text \<open>A \<open>GET\<close> request for the path \<open>/convert-by-filename/\<close> followed by \<open>file_name\<close>, with the
  query parameter \<open>output_filename\<close>.\<close>

definition get_convert_by_filename ::
  "converter \<Rightarrow> int \<Rightarrow> nat \<Rightarrow> string \<Rightarrow> string option \<Rightarrow> fs \<Rightarrow> response \<times> fs" where
  "get_convert_by_filename md_convert uuid4 now file_name output_filename fs =
     (case match_segment ''/convert-by-filename/'' (''/convert-by-filename/'' @ file_name) of
        Some segment \<Rightarrow>
          convert_file_by_name_get md_convert uuid4 now segment output_filename fs
      | None \<Rightarrow> (no_route (''/convert-by-filename/'' @ file_name), fs))"

section \<open>Upload and listing of uploads\<close>

definition upload_file_try :: "nat \<Rightarrow> string \<Rightarrow> string \<Rightarrow> fs \<Rightarrow> exn + (response \<times> fs)" where
  "upload_file_try now filename0 content fs =
     (if filename0 = [] then Inl (HTTPException 400 ''No file provided'')
      else
        let filename = basename filename0;
            file_path = path_div UPLOAD_DIR filename
        in if path_exists fs file_path
           then Inl (HTTPException 409 (''File '' @ quoted filename @ '' already exists''))
           else case write_file fs file_path content now of
                  Inl e \<Rightarrow> Inl e
                | Inr fs' \<Rightarrow>
                    Inr (JSONResponse 200 (UploadBody filename file_path (length content)),
                         fs'))"

definition upload_file :: "nat \<Rightarrow> string \<Rightarrow> string \<Rightarrow> fs \<Rightarrow> response \<times> fs" where
  "upload_file now filename content fs =
     (case upload_file_try now filename content fs of
        Inr r \<Rightarrow> r
      | Inl (HTTPException c d) \<Rightarrow> (HTTPError c d, fs)
      | Inl (OtherException m) \<Rightarrow> (HTTPError 500 (''Upload failed: '' @ m), fs))"

text \<open>The loop body shared by the two listings: \<open>stat\<close> the entry and append its record.\<close>

fun list_entries :: "fs \<Rightarrow> string \<Rightarrow> path list \<Rightarrow> exn + file_entry list" where
  "list_entries fs url [] = Inr []"
| "list_entries fs url (p # ps) =
     (case stat fs p of
        Inl e \<Rightarrow> Inl e
      | Inr (sz, t) \<Rightarrow>
          (case list_entries fs url ps of
             Inl e \<Rightarrow> Inl e
           | Inr es \<Rightarrow> Inr (FileEntry (path_name p) sz t (url @ path_name p) # es)))"

definition list_uploaded_files :: "fs \<Rightarrow> response" where
  "list_uploaded_files fs =
     (case (if path_exists fs UPLOAD_DIR \<and> is_dir_node fs UPLOAD_DIR
            then list_entries fs ''/convert-by-filename/''
                   (filter (path_is_file fs) (entries fs UPLOAD_DIR))
            else Inl (OtherException ''No such file or directory''))
      of Inl e \<Rightarrow> HTTPError 500 (''Error listing files: '' @ str_exn e)
       | Inr files \<Rightarrow> JSONResponse 200 (ListBody files (length files)))"

section \<open>Upload and conversion in one request\<close>

text \<open>
  The inner \<open>try\<close> of \<open>convert_file\<close> reads \<open>result.text_content\<close> without testing \<open>result\<close>: no
  result is an \<open>AttributeError\<close>.
\<close>

definition convert_step_upload :: "converter \<Rightarrow> fs \<Rightarrow> path \<Rightarrow> string \<Rightarrow> exn + string" where
  "convert_step_upload md_convert fs temp_file_path filename =
     (case (case md_convert fs temp_file_path of
              Raises m \<Rightarrow> Inl (OtherException m)
            | Returned None \<Rightarrow>
                Inl (OtherException (quoted ''NoneType'' @ '' object has no attribute ''
                                     @ quoted ''text_content''))
            | Returned (Some text_content) \<Rightarrow>
                (if text_content = []
                 then Inl (HTTPException 422 (''Unable to convert file: '' @ filename))
                 else Inr text_content))
      of Inl e \<Rightarrow> Inl (HTTPException 422 (''Conversion failed: '' @ str_exn e))
       | Inr text_content \<Rightarrow> Inr text_content)"

text \<open>\<open>if temp_file_path and temp_file_path.exists(): temp_file_path.unlink()\<close>.\<close>

definition cleanup :: "fs \<Rightarrow> path option \<Rightarrow> exn + fs" where
  "cleanup fs temp_file_path =
     (case temp_file_path of
        None \<Rightarrow> Inr fs
      | Some p \<Rightarrow> (if path_exists fs p then unlink fs p else Inr fs))"

text \<open>
  The body of the outer \<open>try\<close>: its result or the exception that leaves it, the value of
  \<open>temp_file_path\<close> and the file system at that point.
\<close>

definition convert_file_try ::
  "converter \<Rightarrow> int \<Rightarrow> nat \<Rightarrow> string \<Rightarrow> string \<Rightarrow> string option \<Rightarrow> fs
     \<Rightarrow> (exn + response) \<times> path option \<times> fs" where
  "convert_file_try md_convert uuid4 now filename content output_filename fs =
     (if filename = [] then (Inl (HTTPException 400 ''No file provided''), None, fs)
      else
        let unique_id = unique_id_of uuid4;
            original_name = Path_stem filename;
            file_extension = Path_suffix filename;
            temp_file_path = path_div UPLOAD_DIR (unique_id @ ''_'' @ filename)
        in case write_file fs temp_file_path content now of
             Inl e \<Rightarrow> (Inl e, Some temp_file_path, fs)
           | Inr fs1 \<Rightarrow>
               (case convert_step_upload md_convert fs1 temp_file_path filename of
                  Inl e \<Rightarrow> (Inl e, Some temp_file_path, fs1)
                | Inr text_content \<Rightarrow>
                    let md_filename = md_filename_of output_filename original_name unique_id;
                        output_path = path_div CONVERTED_DIR md_filename
                    in case write_file fs1 output_path text_content now of
                         Inl e \<Rightarrow> (Inl e, Some temp_file_path, fs1)
                       | Inr fs2 \<Rightarrow>
                           (case cleanup fs2 (Some temp_file_path) of
                              Inl e \<Rightarrow> (Inl e, Some temp_file_path, fs2)
                            | Inr fs3 \<Rightarrow>
                                (Inr (JSONResponse 200
                                        (ConvertBody filename md_filename None output_path
                                           (length text_content) file_extension unique_id)),
                                 Some temp_file_path, fs3))))"

text \<open>
  The outer handlers: an \<open>HTTPException\<close> is raised again as it is; any other exception
  cleans up and becomes a 500, and an exception of the clean-up itself is caught by nobody.
\<close>

definition convert_file ::
  "converter \<Rightarrow> int \<Rightarrow> nat \<Rightarrow> string \<Rightarrow> string \<Rightarrow> string option \<Rightarrow> fs \<Rightarrow> response \<times> fs" where
  "convert_file md_convert uuid4 now filename content output_filename fs =
     (case convert_file_try md_convert uuid4 now filename content output_filename fs of
        (Inr r, temp_file_path, fs') \<Rightarrow> (r, fs')
      | (Inl (HTTPException c d), temp_file_path, fs') \<Rightarrow> (HTTPError c d, fs')
      | (Inl (OtherException m), temp_file_path, fs') \<Rightarrow>
          (case cleanup fs' temp_file_path of
             Inl e \<Rightarrow> (ServerError, fs')
           | Inr fs'' \<Rightarrow> (HTTPError 500 (''Internal server error: '' @ m), fs'')))"

section \<open>Download, listing and deletion of converted files\<close>

definition download_converted_file :: "string \<Rightarrow> fs \<Rightarrow> response" where
  "download_converted_file filename fs =
     (let file_path = path_div CONVERTED_DIR filename
      in if \<not> path_exists fs file_path then HTTPError 404 ''File not found''
         else FileResponse file_path filename ''text/markdown'')"

definition list_converted_files :: "fs \<Rightarrow> response" where
  "list_converted_files fs =
     (case list_entries fs ''/download/'' (glob_md fs CONVERTED_DIR) of
        Inl e \<Rightarrow> HTTPError 500 (''Error listing files: '' @ str_exn e)
      | Inr files \<Rightarrow> JSONResponse 200 (ListBody files (length files)))"

definition delete_converted_file :: "string \<Rightarrow> fs \<Rightarrow> response \<times> fs" where
  "delete_converted_file filename fs =
     (let file_path = path_div CONVERTED_DIR filename
      in if \<not> path_exists fs file_path then (HTTPError 404 ''File not found'', fs)
         else case unlink fs file_path of
                Inl e \<Rightarrow> (HTTPError 500 (''Error deleting file: '' @ str_exn e), fs)
              | Inr fs' \<Rightarrow>
                  (JSONResponse 200
                     (MessageBody (''File '' @ filename @ '' deleted successfully'')),
                   fs'))"

fun listed_names :: "response \<Rightarrow> string list" where
  "listed_names (JSONResponse _ (ListBody files _)) =
     map (\<lambda>e. case e of FileEntry n _ _ _ \<Rightarrow> n) files"
| "listed_names _ = []"

section \<open>Properties of states and outcomes\<close>

text \<open>The converter reported no result or an empty text.\<close>

definition empty_outcome :: "outcome \<Rightarrow> bool" where
  "empty_outcome r = (r = Returned None \<or> r = Returned (Some []))"

text \<open>
  The layout the service keeps: a directory without subdirectories. The service creates
  no directory below \<open>UPLOAD_DIR\<close> or \<open>CONVERTED_DIR\<close>; one can only appear from outside.
\<close>

definition no_subdirs :: "fs \<Rightarrow> path \<Rightarrow> bool" where
  "no_subdirs fs d = list_all (\<lambda>p. \<not> is_dir_node fs p) (entries fs d)"

section \<open>Example states and inputs\<close>

definition example_fs :: fs where
  "example_fs =
     [([''app''], Dir 0 0),
      ([''app'', ''uploads''], Dir 0 0),
      ([''app'', ''converted''], Dir 0 0),
      ([''app'', ''uploads'', ''a.txt''], File ''hi'' 1)]"

text \<open>The same state with a subdirectory in each directory and a text file in \<open>Converted\<close>.\<close>

definition example_fs_dirs :: fs where
  "example_fs_dirs =
     example_fs @
     [([''app'', ''uploads'', ''d''], Dir 7 2),
      ([''app'', ''converted'', ''notes.md''], Dir 7 3),
      ([''app'', ''converted'', ''raw.txt''], File ''abc'' 4)]"

definition example_uuid :: int where
  "example_uuid = 0x3f2a9c1e5b7d4e8fa1b2c3d4e5f60718"

text \<open>A converter that turns the content into a heading, and one that reports empty text.\<close>

definition heading_converter :: converter where
  "heading_converter fs p =
     (case read_file fs p of
        None \<Rightarrow> Raises ''No such file or directory''
      | Some data \<Rightarrow> Returned (Some (''# '' @ data)))"

definition empty_converter :: converter where
  "empty_converter fs p = Returned (Some [])"

section \<open>Facts about names and paths\<close>

lemma basename_no_slash: "CHR ''/'' \<notin> set (basename p)"
proof -
  have "\<forall>c \<in> set (takeWhile (\<lambda>c. c \<noteq> CHR ''/'') (rev p)). c \<noteq> CHR ''/''"
    by (auto dest: set_takeWhileD)
  then show ?thesis by (auto simp: basename_def)
qed

lemma split_slash_plain: "CHR ''/'' \<notin> set s \<Longrightarrow> split_slash s = [s]"
  by (induction s) auto

lemma split_slash_nonempty: "split_slash s \<noteq> []"
  by (induction s) auto

lemma split_slash_append:
  "CHR ''/'' \<notin> set a \<Longrightarrow>
   split_slash (a @ b) = (a @ hd (split_slash b)) # tl (split_slash b)"
  by (induction a) (auto simp: split_slash_nonempty)

lemma split_slash_parts_no_slash: "x \<in> set (split_slash s) \<Longrightarrow> CHR ''/'' \<notin> set x"
proof (induction s arbitrary: x)
  case Nil then show ?case by simp
next
  case (Cons c cs)
  have ne: "split_slash cs \<noteq> []" by (rule split_slash_nonempty)
  show ?case
  proof (cases "c = CHR ''/''")
    case True with Cons show ?thesis by auto
  next
    case False
    with Cons.prems have "x = c # hd (split_slash cs) \<or> x \<in> set (tl (split_slash cs))" by simp
    then show ?thesis
    proof
      assume "x = c # hd (split_slash cs)"
      moreover have "hd (split_slash cs) \<in> set (split_slash cs)" using ne by simp
      ultimately show ?thesis using Cons.IH False by auto
    next
      assume "x \<in> set (tl (split_slash cs))"
      then have "x \<in> set (split_slash cs)" using ne by (meson list.set_sel(2))
      then show ?thesis using Cons.IH by simp
    qed
  qed
qed

lemma parse_parts_plain:
  "CHR ''/'' \<notin> set s \<Longrightarrow> s \<noteq> [] \<Longrightarrow> s \<noteq> ''.'' \<Longrightarrow> parse_parts s = [s]"
  by (simp add: parse_parts_def split_slash_plain)

lemma path_div_plain:
  "CHR ''/'' \<notin> set s \<Longrightarrow> s \<noteq> [] \<Longrightarrow> s \<noteq> ''.'' \<Longrightarrow> path_div base s = base @ [s]"
  by (cases s) (auto simp: path_div_def parse_parts_plain)

lemma path_name_parse_no_slash: "CHR ''/'' \<notin> set (path_name (parse_parts s))"
proof (cases "parse_parts s = []")
  case True then show ?thesis by (simp add: path_name_def)
next
  case False
  then have "last (parse_parts s) \<in> set (parse_parts s)" by simp
  then have "last (parse_parts s) \<in> set (split_slash s)" by (simp add: parse_parts_def)
  then show ?thesis using False split_slash_parts_no_slash by (simp add: path_name_def)
qed

lemma name_stem_subset: "set (name_stem n) \<subseteq> set n"
  by (auto simp: name_stem_def Let_def dest: in_set_takeD)

section \<open>Facts about the file system\<close>

lemma is_dir_root [simp]: "is_dir_node fs []"
  by (simp add: is_dir_node_def lookup_def)

lemma resolve_child:
  "a \<noteq> ''..'' \<Longrightarrow> b \<noteq> ''..'' \<Longrightarrow> x \<noteq> ''..'' \<Longrightarrow>
   resolve fs [a, b, x] =
     (if is_dir_node fs [a] \<and> is_dir_node fs [a, b] then Some [a, b, x] else None)"
  by (simp add: resolve_def)

lemma lookup_update:
  "q \<noteq> [] \<Longrightarrow> lookup (AList.update q v fs) p = (if p = q then Some v else lookup fs p)"
  by (simp add: lookup_def update_conv')

lemma lookup_delete:
  "lookup (AList.delete q fs) p = (if p = q \<and> p \<noteq> [] then None else lookup fs p)"
  by (auto simp: lookup_def delete_conv')

section \<open>Facts about the token\<close>

lemma hex_digit_in: "hex_digit n \<in> set ''0123456789abcdef''"
proof -
  have "nat (n mod 16) < 16" by simp
  then have "nat (n mod 16) < length ''0123456789abcdef''" by simp
  then show ?thesis unfolding hex_digit_def by (rule nth_mem)
qed

lemma length_hex32: "length (hex32 n) = 32"
  by (simp add: hex32_def)

lemma unique_id_take: "unique_id_of u = take 8 (hex32 u)"
  by (simp add: unique_id_of_def uuid_str_def Let_def length_hex32)

lemma length_unique_id: "length (unique_id_of u) = 8"
  by (simp add: unique_id_take length_hex32)

lemma unique_id_chars: "set (unique_id_of u) \<subseteq> set ''0123456789abcdef''"
proof -
  have "set (hex32 u) \<subseteq> set ''0123456789abcdef''"
    unfolding hex32_def using hex_digit_in by auto
  then show ?thesis unfolding unique_id_take by (meson in_set_takeD subset_iff)
qed

lemma unique_id_no_slash: "CHR ''/'' \<notin> set (unique_id_of u)"
  using unique_id_chars [of u] by auto

section \<open>Facts about the handlers\<close>

lemma path_is_file_exists: "path_is_file fs p \<Longrightarrow> path_exists fs p"
  by (auto simp: path_is_file_def path_exists_def split: option.splits node.splits)

lemma convert_step_get_eq: "convert_step_get md fs p n = convert_step md fs p n"
  by (simp add: convert_step_get_def convert_step_def)


lemma md_filename_empty: "md_filename_of (Some []) = md_filename_of None"
  by (intro ext) (simp add: md_filename_of_def)

lemma write_file_no_http: "write_file fs p d n \<noteq> Inl (HTTPException c x)"
  by (simp add: write_file_def split: option.splits node.splits)

lemma unlink_no_http: "unlink fs p \<noteq> Inl (HTTPException c x)"
  by (simp add: unlink_def split: option.splits node.splits)




lemma by_name_empty:
  assumes "file_name \<noteq> []" "path_is_file fs (path_div UPLOAD_DIR (basename file_name))"
    "empty_outcome (md fs (path_div UPLOAD_DIR (basename file_name)))"
  shows "convert_file_by_name md u now file_name ofn fs =
     (HTTPError 422 (''Conversion failed: 422: Unable to convert file: '' @ basename file_name), fs)"
proof -
  have d: "digits 422 = ''422''" by code_simp
  have "convert_step md fs (path_div UPLOAD_DIR (basename file_name)) (basename file_name)
    = Inl (HTTPException 422 (''Conversion failed: 422: Unable to convert file: '' @ basename file_name))"
    using assms(3) by (auto simp: convert_step_def empty_outcome_def d)
  then show ?thesis using assms(1,2) path_is_file_exists [OF assms(2)]
    by (simp add: convert_file_by_name_def convert_file_by_name_try_def Let_def)
qed

lemma by_name_success:
  assumes "status_code (fst (convert_file_by_name md u now fn ofn fs)) = 200"
  shows "\<exists>text. md fs (path_div UPLOAD_DIR (basename fn)) = Returned (Some text) \<and> text \<noteq> []
     \<and> fn \<noteq> [] \<and> path_is_file fs (path_div UPLOAD_DIR (basename fn))
     \<and> write_file fs (path_div CONVERTED_DIR
           (md_filename_of ofn (Path_stem (basename fn)) (unique_id_of u)))
           text now = Inr (snd (convert_file_by_name md u now fn ofn fs))
     \<and> converted_filename (fst (convert_file_by_name md u now fn ofn fs)) =
         Some (md_filename_of ofn (Path_stem (basename fn)) (unique_id_of u))
     \<and> conversion_id (fst (convert_file_by_name md u now fn ofn fs)) = Some (unique_id_of u)"
  using assms
  by (auto simp: convert_file_by_name_def convert_file_by_name_try_def convert_step_def Let_def
      write_file_no_http
      split: if_splits sum.splits exn.splits outcome.splits option.splits)

lemma no_subdirs_child: "no_subdirs fs d \<Longrightarrow> \<not> is_dir_node fs (d @ [x])"
proof
  assume flat: "no_subdirs fs d" and dir: "is_dir_node fs (d @ [x])"
  from dir obtain n where "map_of fs (d @ [x]) = Some n"
    by (auto simp: is_dir_node_def lookup_def split: option.splits)
  then have "d @ [x] \<in> set (map fst fs)"
    by (metis map_of_SomeD fst_conv image_eqI set_map)
  then have "d @ [x] \<in> set (entries fs d)" by (simp add: entries_def)
  with flat have "\<not> is_dir_node fs (d @ [x])" by (simp add: no_subdirs_def list_all_iff)
  with dir show False by simp
qed

lemma unique_id_nonempty: "unique_id_of u \<noteq> []"
  using length_unique_id [of u] by auto

lemma hd_unique_id: "hd (unique_id_of u) \<noteq> CHR ''/''"
  using unique_id_no_slash [of u] unique_id_nonempty [of u] by (metis hd_in_set)

lemma temp_first_long: "8 < length (unique_id_of u @ ''_'' @ x)"
  by (simp add: length_unique_id)

lemma temp_parts:
  "parse_parts (unique_id_of u @ ''_'' @ fn) =
     (unique_id_of u @ ''_'' @ hd (split_slash fn))
     # filter (\<lambda>x. x \<noteq> [] \<and> x \<noteq> ''.'') (tl (split_slash fn))"
proof -
  have ns: "CHR ''/'' \<notin> set (unique_id_of u @ ''_'')" using unique_id_no_slash by simp
  have "split_slash ((unique_id_of u @ ''_'') @ fn) =
      ((unique_id_of u @ ''_'') @ hd (split_slash fn)) # tl (split_slash fn)"
    by (rule split_slash_append [OF ns])
  moreover have "unique_id_of u @ ''_'' @ hd (split_slash fn) \<noteq> ''.''"
  proof
    assume e: "unique_id_of u @ ''_'' @ hd (split_slash fn) = ''.''"
    have "8 < length (unique_id_of u @ ''_'' @ hd (split_slash fn))" by (rule temp_first_long)
    then show False unfolding e by simp
  qed
  ultimately show ?thesis using unique_id_nonempty [of u] by (simp add: parse_parts_def)
qed


lemma temp_path:
  "path_div UPLOAD_DIR (unique_id_of u @ ''_'' @ fn) =
     UPLOAD_DIR @ (unique_id_of u @ ''_'' @ hd (split_slash fn))
       # filter (\<lambda>x. x \<noteq> [] \<and> x \<noteq> ''.'') (tl (split_slash fn))"
proof -
  have "hd (unique_id_of u @ ''_'' @ fn) \<noteq> CHR ''/''"
    using hd_unique_id [of u] unique_id_nonempty [of u] by simp
  then show ?thesis unfolding path_div_def temp_parts by simp
qed

lemma resolve_temp:
  assumes "no_subdirs fs UPLOAD_DIR" "8 < length x"
  shows "resolve fs (UPLOAD_DIR @ x # rest) =
     (if rest = [] \<and> is_dir_node fs [''app''] \<and> is_dir_node fs UPLOAD_DIR
      then Some (UPLOAD_DIR @ [x]) else None)"
proof -
  have x: "x \<noteq> ''..''" using assms(2) by auto
  have nd: "\<not> is_dir_node fs [''app'', ''uploads'', x]"
    using no_subdirs_child [OF assms(1), of x] by (simp add: UPLOAD_DIR_def)
  show ?thesis using x nd by (cases rest) (simp_all add: resolve_def UPLOAD_DIR_def)
qed

lemma write_temp:
  assumes "no_subdirs fs UPLOAD_DIR" "8 < length x"
  shows "write_file fs (UPLOAD_DIR @ x # rest) data now =
     (if rest = [] \<and> is_dir_node fs [''app''] \<and> is_dir_node fs UPLOAD_DIR
      then Inr (AList.update (UPLOAD_DIR @ [x]) (File data now) fs)
      else Inl (OtherException ''No such file or directory''))"
  using no_subdirs_child [OF assms(1), of x]
  by (auto simp: write_file_def resolve_temp [OF assms] is_dir_node_def
      split: option.splits node.splits)

lemma is_dir_update_file:
  "q \<noteq> [] \<Longrightarrow> is_dir_node (AList.update q (File d n) fs) p = (p \<noteq> q \<and> is_dir_node fs p)"
  by (auto simp: is_dir_node_def lookup_update)

lemma Path_stem_no_slash: "CHR ''/'' \<notin> set (Path_stem s)"
  using name_stem_subset [of "path_name (parse_parts s)"] path_name_parse_no_slash [of s]
  by (auto simp: Path_stem_def)

lemma md_default_no_slash:
  "CHR ''/'' \<notin> set stem \<Longrightarrow> CHR ''/'' \<notin> set (md_filename_of None stem (unique_id_of u))"
  using unique_id_no_slash [of u] by (simp add: md_filename_of_def)

lemma md_override_no_slash:
  "ov \<noteq> [] \<Longrightarrow> CHR ''/'' \<notin> set ov \<Longrightarrow> CHR ''/'' \<notin> set (md_filename_of (Some ov) stem tok)"
  by (simp add: md_filename_of_def)

lemma md_filename_long: "2 < length (md_filename_of ofn stem tok)"
  by (cases ofn) (simp_all add: md_filename_of_def)

lemma long_name_plain: "2 < length n \<Longrightarrow> n \<noteq> [] \<and> n \<noteq> ''.'' \<and> n \<noteq> ''..''"
  by auto

lemma write_converted:
  assumes "write_file fs (path_div CONVERTED_DIR n) data now = Inr fs'"
    "CHR ''/'' \<notin> set n" "2 < length n"
  shows "fs' = AList.update (CONVERTED_DIR @ [n]) (File data now) fs
     \<and> lookup fs' (CONVERTED_DIR @ [n]) = Some (File data now)
     \<and> is_dir_node fs [''app''] \<and> is_dir_node fs CONVERTED_DIR"
proof -
  have pl: "n \<noteq> []" "n \<noteq> ''.''" "n \<noteq> ''..''" using long_name_plain [OF assms(3)] by simp_all
  have pd: "path_div CONVERTED_DIR n = [''app'', ''converted'', n]"
    using path_div_plain [OF assms(2) pl(1,2), of CONVERTED_DIR] by (simp add: CONVERTED_DIR_def)
  have r: "resolve fs [''app'', ''converted'', n] =
      (if is_dir_node fs [''app''] \<and> is_dir_node fs [''app'', ''converted'']
       then Some [''app'', ''converted'', n] else None)"
    using pl(3) by (simp add: resolve_child)
  from assms(1) have fs': "fs' = AList.update [''app'', ''converted'', n] (File data now) fs"
    and d: "is_dir_node fs [''app''] \<and> is_dir_node fs [''app'', ''converted'']"
    unfolding pd write_file_def r by (auto split: if_splits option.splits node.splits)
  then show ?thesis by (simp add: CONVERTED_DIR_def lookup_update)
qed

lemma by_name_entry:
  assumes ok: "status_code (fst (convert_file_by_name md u now fn ofn fs)) = 200"
    and ns: "CHR ''/'' \<notin> set (md_filename_of ofn (Path_stem (basename fn)) (unique_id_of u))"
  shows "converted_filename (fst (convert_file_by_name md u now fn ofn fs)) =
        Some (md_filename_of ofn (Path_stem (basename fn)) (unique_id_of u))
     \<and> (\<exists>text. text \<noteq> [] \<and> md fs (path_div UPLOAD_DIR (basename fn)) = Returned (Some text)
          \<and> lookup (snd (convert_file_by_name md u now fn ofn fs))
               (CONVERTED_DIR @ [md_filename_of ofn (Path_stem (basename fn)) (unique_id_of u)])
             = Some (File text now))"
proof -
  from by_name_success [OF ok] obtain tc where
    t: "md fs (path_div UPLOAD_DIR (basename fn)) = Returned (Some tc)" "tc \<noteq> []"
    and w: "write_file fs (path_div CONVERTED_DIR
           (md_filename_of ofn (Path_stem (basename fn)) (unique_id_of u)))
           tc now = Inr (snd (convert_file_by_name md u now fn ofn fs))"
    and c: "converted_filename (fst (convert_file_by_name md u now fn ofn fs)) =
         Some (md_filename_of ofn (Path_stem (basename fn)) (unique_id_of u))"
    by blast
  from write_converted [OF w ns md_filename_long] t c show ?thesis by blast
qed

lemma convert_step_upload_exn:
  "convert_step_upload md fs p n = Inl e \<Longrightarrow> \<exists>d. e = HTTPException 422 d"
  by (auto simp: convert_step_upload_def split: outcome.splits option.splits if_splits)

lemma convert_step_upload_ok:
  "convert_step_upload md fs p n = Inr tc \<Longrightarrow> md fs p = Returned (Some tc) \<and> tc \<noteq> []"
  by (auto simp: convert_step_upload_def split: outcome.splits option.splits if_splits)

lemma cleanup_no_http: "cleanup fs t \<noteq> Inl (HTTPException c x)"
  by (simp add: cleanup_def unlink_no_http split: option.splits)

lemma convert_file_try_ok:
  assumes "convert_file_try md u now filename content ofn fs = (Inr r, t, fs')"
  shows "\<exists>fs1 tc fs2. filename \<noteq> []
     \<and> write_file fs (path_div UPLOAD_DIR (unique_id_of u @ ''_'' @ filename)) content now = Inr fs1
     \<and> md fs1 (path_div UPLOAD_DIR (unique_id_of u @ ''_'' @ filename)) = Returned (Some tc)
     \<and> tc \<noteq> []
     \<and> write_file fs1 (path_div CONVERTED_DIR
           (md_filename_of ofn (Path_stem filename) (unique_id_of u))) tc now = Inr fs2
     \<and> cleanup fs2 (Some (path_div UPLOAD_DIR (unique_id_of u @ ''_'' @ filename))) = Inr fs'
     \<and> converted_filename r = Some (md_filename_of ofn (Path_stem filename) (unique_id_of u))
     \<and> conversion_id r = Some (unique_id_of u) \<and> status_code r = 200"
  using assms
  by (auto simp: convert_file_try_def Let_def dest!: convert_step_upload_ok
      split: if_splits sum.splits)

lemma convert_file_try_http:
  assumes "convert_file_try md u now filename content ofn fs = (Inl (HTTPException c d), t, fs')"
  shows "c = 400 \<or> c = 422"
  using assms
  by (auto simp: convert_file_try_def Let_def write_file_no_http cleanup_no_http
      dest: convert_step_upload_exn split: if_splits sum.splits)

lemma convert_file_200:
  assumes "status_code (fst (convert_file md u now filename content ofn fs)) = 200"
  shows "\<exists>r t. convert_file_try md u now filename content ofn fs =
            (Inr r, t, snd (convert_file md u now filename content ofn fs))
          \<and> fst (convert_file md u now filename content ofn fs) = r"
proof (cases "convert_file_try md u now filename content ofn fs")
  case (fields a t fs')
  show ?thesis
  proof (cases a)
    case (Inr r)
    with fields show ?thesis by (simp add: convert_file_def)
  next
    case (Inl e)
    show ?thesis
    proof (cases e)
      case (HTTPException c d)
      with Inl fields convert_file_try_http [of md u now filename content ofn fs c d t fs']
      have "c = 400 \<or> c = 422" by simp
      moreover have "status_code (fst (convert_file md u now filename content ofn fs)) = c"
        using HTTPException Inl fields by (simp add: convert_file_def)
      ultimately show ?thesis using assms by auto
    next
      case (OtherException m)
      then have "status_code (fst (convert_file md u now filename content ofn fs)) = 500"
        using Inl fields by (simp add: convert_file_def split: sum.splits)
      then show ?thesis using assms by simp
    qed
  qed
qed

lemma convert_file_entry:
  assumes ok: "status_code (fst (convert_file md u now filename content ofn fs)) = 200"
    and flat: "no_subdirs fs UPLOAD_DIR"
    and ns: "CHR ''/'' \<notin> set (md_filename_of ofn (Path_stem filename) (unique_id_of u))"
  shows "converted_filename (fst (convert_file md u now filename content ofn fs)) =
        Some (md_filename_of ofn (Path_stem filename) (unique_id_of u))
     \<and> (\<exists>fs1 tc. tc \<noteq> []
          \<and> write_file fs (path_div UPLOAD_DIR (unique_id_of u @ ''_'' @ filename)) content now
              = Inr fs1
          \<and> md fs1 (path_div UPLOAD_DIR (unique_id_of u @ ''_'' @ filename)) = Returned (Some tc)
          \<and> lookup (snd (convert_file md u now filename content ofn fs))
               (CONVERTED_DIR @ [md_filename_of ofn (Path_stem filename) (unique_id_of u)])
             = Some (File tc now))
     \<and> \<not> path_exists (snd (convert_file md u now filename content ofn fs))
           (path_div UPLOAD_DIR (unique_id_of u @ ''_'' @ filename))"
proof -
  let ?R = "convert_file md u now filename content ofn fs"
  let ?n = "md_filename_of ofn (Path_stem filename) (unique_id_of u)"
  define x where "x = unique_id_of u @ ''_'' @ hd (split_slash filename)"
  let ?rest = "filter (\<lambda>x. x \<noteq> [] \<and> x \<noteq> ''.'') (tl (split_slash filename))"
  let ?temp = "path_div UPLOAD_DIR (unique_id_of u @ ''_'' @ filename)"
  from convert_file_200 [OF ok] obtain r t where
    tr: "convert_file_try md u now filename content ofn fs = (Inr r, t, snd ?R)"
    and r: "fst ?R = r" by blast
  from convert_file_try_ok [OF tr] obtain fs1 tc fs2 where
    w1: "write_file fs ?temp content now = Inr fs1"
    and cv: "md fs1 ?temp = Returned (Some tc)" "tc \<noteq> []"
    and w2: "write_file fs1 (path_div CONVERTED_DIR ?n) tc now = Inr fs2"
    and cl: "cleanup fs2 (Some ?temp) = Inr (snd ?R)"
    and cf: "converted_filename r = Some ?n"
    by blast
  have xl: "8 < length x" unfolding x_def by (rule temp_first_long)
  have tp: "?temp = UPLOAD_DIR @ x # ?rest" unfolding x_def by (rule temp_path)
  from w1 have rest: "?rest = []" and d: "is_dir_node fs [''app'']" "is_dir_node fs UPLOAD_DIR"
    and fs1: "fs1 = AList.update (UPLOAD_DIR @ [x]) (File content now) fs"
    unfolding tp write_temp [OF flat xl] by (auto split: if_splits)
  have tp': "?temp = [''app'', ''uploads'', x]" using tp rest by (simp add: UPLOAD_DIR_def)
  from write_converted [OF w2 ns md_filename_long]
  have fs2: "fs2 = AList.update (CONVERTED_DIR @ [?n]) (File tc now) fs1" by simp
  have "2 < length x" using xl by linarith
  then have x2: "x \<noteq> ''..''" by (rule long_name_plain [THEN conjunct2, THEN conjunct2])
  have l2: "lookup fs2 [''app'', ''uploads'', x] = Some (File content now)"
    unfolding fs2 fs1 by (simp add: lookup_update UPLOAD_DIR_def CONVERTED_DIR_def)
  have d2: "is_dir_node fs2 [''app'']" "is_dir_node fs2 [''app'', ''uploads'']"
    unfolding fs2 fs1 using d
    by (simp_all add: is_dir_update_file UPLOAD_DIR_def CONVERTED_DIR_def)
  have rs: "resolve fs2 [''app'', ''uploads'', x] = Some [''app'', ''uploads'', x]"
    using d2 x2 by (simp add: resolve_child)
  have ex: "path_exists fs2 [''app'', ''uploads'', x]"
    by (simp add: path_exists_def rs l2)
  have ul: "unlink fs2 [''app'', ''uploads'', x] = Inr (AList.delete [''app'', ''uploads'', x] fs2)"
    by (simp add: unlink_def rs l2)
  from cl have fs3: "snd ?R = AList.delete [''app'', ''uploads'', x] fs2"
    unfolding tp' cleanup_def using ex ul by simp
  have out: "lookup (snd ?R) (CONVERTED_DIR @ [?n]) = Some (File tc now)"
    unfolding fs3 fs2 by (simp add: lookup_delete lookup_update CONVERTED_DIR_def)
  have gone: "lookup (snd ?R) [''app'', ''uploads'', x] = None"
    unfolding fs3 by (simp add: lookup_delete)
  have ne: "\<not> path_exists (snd ?R) ?temp"
    unfolding tp' using gone x2 by (simp add: path_exists_def resolve_child)
  from cf r w1 cv out ne show ?thesis by blast
qed

lemma convert_step_upload_empty:
  "empty_outcome (md fs p) \<Longrightarrow> \<exists>d. convert_step_upload md fs p n = Inl (HTTPException 422 d)"
  by (auto simp: convert_step_upload_def empty_outcome_def)

lemma convert_file_empty:
  assumes ne: "filename \<noteq> []" and flat: "no_subdirs fs UPLOAD_DIR"
    and w1: "write_file fs (path_div UPLOAD_DIR (unique_id_of u @ ''_'' @ filename)) content now
              = Inr fs1"
    and em: "empty_outcome (md fs1 (path_div UPLOAD_DIR (unique_id_of u @ ''_'' @ filename)))"
  shows "status_code (fst (convert_file md u now filename content ofn fs)) = 422
     \<and> snd (convert_file md u now filename content ofn fs) = fs1
     \<and> (\<forall>p. take 2 p = CONVERTED_DIR \<longrightarrow> lookup fs1 p = lookup fs p)"
proof -
  define x where "x = unique_id_of u @ ''_'' @ hd (split_slash filename)"
  let ?rest = "filter (\<lambda>x. x \<noteq> [] \<and> x \<noteq> ''.'') (tl (split_slash filename))"
  let ?temp = "path_div UPLOAD_DIR (unique_id_of u @ ''_'' @ filename)"
  from convert_step_upload_empty [of md fs1 ?temp filename, OF em] obtain d where
    cs: "convert_step_upload md fs1 ?temp filename = Inl (HTTPException 422 d)" by blast
  have "convert_file_try md u now filename content ofn fs =
      (Inl (HTTPException 422 d), Some ?temp, fs1)"
    using ne w1 cs by (simp add: convert_file_try_def Let_def)
  then have a: "convert_file md u now filename content ofn fs = (HTTPError 422 d, fs1)"
    by (simp add: convert_file_def)
  have xl: "8 < length x" unfolding x_def by (rule temp_first_long)
  have tp: "?temp = UPLOAD_DIR @ x # ?rest" unfolding x_def by (rule temp_path)
  from w1 have fs1: "fs1 = AList.update (UPLOAD_DIR @ [x]) (File content now) fs"
    unfolding tp write_temp [OF flat xl] by (auto split: if_splits)
  have b: "\<forall>p. take 2 p = CONVERTED_DIR \<longrightarrow> lookup fs1 p = lookup fs p"
    unfolding fs1 by (auto simp: lookup_update UPLOAD_DIR_def CONVERTED_DIR_def)
  from a b show ?thesis by simp
qed

lemma list_entries_names:
  "list_entries fs url ps = Inr es \<Longrightarrow>
   map (\<lambda>e. case e of FileEntry n _ _ _ \<Rightarrow> n) es = map path_name ps"
proof (induction ps arbitrary: es)
  case Nil then show ?case by simp
next
  case (Cons p ps)
  then show ?case by (auto split: sum.splits prod.splits)
qed

lemma glob_md_names: "p \<in> set (glob_md fs d) \<Longrightarrow> endswith (path_name p) ''.md''"
  by (auto simp: glob_md_def entries_def path_name_def split: if_splits)

lemma listed_names_md:
  "n \<in> set (listed_names (list_converted_files fs)) \<Longrightarrow> endswith n ''.md''"
proof (cases "list_entries fs ''/download/'' (glob_md fs CONVERTED_DIR)")
  case (Inl e)
  assume "n \<in> set (listed_names (list_converted_files fs))"
  with Inl show ?thesis by (simp add: list_converted_files_def)
next
  case (Inr es)
  assume "n \<in> set (listed_names (list_converted_files fs))"
  with Inr have "n \<in> set (map path_name (glob_md fs CONVERTED_DIR))"
    using list_entries_names [OF Inr] by (simp add: list_converted_files_def)
  then show ?thesis using glob_md_names by auto
qed

lemma convert_file_by_name_get_eq:
  "convert_file_by_name_get md u now fn ofn fs = convert_file_by_name md u now fn ofn fs"
  by (simp add: convert_file_by_name_get_def convert_file_by_name_def
      convert_file_by_name_get_try_def convert_file_by_name_try_def convert_step_get_eq Let_def)

lemma basename_Nil: "basename [] = []"
  by (simp add: basename_def)

lemma child_path:
  assumes "CHR ''/'' \<notin> set n" "n \<noteq> []" "n \<noteq> ''.''" "n \<noteq> ''..''"
    "is_dir_node fs [a]" "is_dir_node fs [a, b]" "a \<noteq> ''..''" "b \<noteq> ''..''"
  shows "path_div [a, b] n = [a, b, n] \<and> resolve fs [a, b, n] = Some [a, b, n]"
  using assms path_div_plain [of n "[a, b]"] by (simp add: resolve_child)

lemma md_filename_no_slash:
  assumes "case ofn of None \<Rightarrow> True | Some ov \<Rightarrow> CHR ''/'' \<notin> set ov"
    and "CHR ''/'' \<notin> set stem"
  shows "CHR ''/'' \<notin> set (md_filename_of ofn stem (unique_id_of u))"
proof (cases ofn)
  case None
  then show ?thesis using md_default_no_slash [OF assms(2)] by simp
next
  case (Some ov)
  show ?thesis
  proof (cases "ov = []")
    case True
    then show ?thesis using Some md_default_no_slash [OF assms(2), of u]
      by (simp add: md_filename_of_def)
  next
    case False
    then show ?thesis using Some assms(1) md_override_no_slash [of ov stem "unique_id_of u"]
      by simp
  qed
qed

section \<open>Facts about routes, stems and tokens\<close>

lemma by_name_empty_override:
  "convert_file_by_name md u now fn (Some []) fs = convert_file_by_name md u now fn None fs"
  unfolding convert_file_by_name_def convert_file_by_name_try_def md_filename_empty ..

lemma by_name_form_optional:
  "convert_file_by_name md u now fn (form_optional ofn) fs = convert_file_by_name md u now fn ofn fs"
proof (cases ofn)
  case None then show ?thesis by simp
next
  case (Some v) then show ?thesis by (cases "v = []") (simp_all add: by_name_empty_override)
qed

lemma match_segment_plain:
  "n \<noteq> [] \<Longrightarrow> CHR ''/'' \<notin> set n \<Longrightarrow> match_segment pre (pre @ n) = Some n"
  by (simp add: match_segment_def)

lemma rfind_none: "c \<notin> set s \<Longrightarrow> rfind c s = - 1"
proof -
  assume "c \<notin> set s"
  then have "filter (\<lambda>i. s ! i = c) (rev [0..<length s]) = []"
    by (auto simp: filter_empty_conv)
  then show ?thesis by (simp add: rfind_def)
qed

lemma rfind_at:
  assumes i: "i < length s" and c: "s ! i = c"
    and after: "\<And>j. i < j \<Longrightarrow> j < length s \<Longrightarrow> s ! j \<noteq> c"
  shows "rfind c s = int i"
proof -
  have sp: "[0..<length s] = [0..<i] @ i # [Suc i..<length s]"
  proof -
    have "[0..<i + (length s - i)] = [0..<i] @ [i..<i + (length s - i)]"
      by (rule upt_add_eq_append) simp
    moreover have "i + (length s - i) = length s" using i by simp
    ultimately have "[0..<length s] = [0..<i] @ [i..<length s]" by simp
    then show ?thesis using i by (simp add: upt_conv_Cons)
  qed
  have "filter (\<lambda>j. s ! j = c) [Suc i..<length s] = []"
    using after by (auto simp: filter_empty_conv)
  then have "filter (\<lambda>j. s ! j = c) [0..<length s] = filter (\<lambda>j. s ! j = c) [0..<i] @ [i]"
    using c by (subst sp) simp
  then have "filter (\<lambda>j. s ! j = c) (rev [0..<length s]) =
      i # rev (filter (\<lambda>j. s ! j = c) [0..<i])"
    by (simp add: rev_filter [symmetric])
  then show ?thesis by (simp add: rfind_def)
qed

lemma rfind_last:
  assumes "c \<notin> set e"
  shows "rfind c (s @ c # e) = int (length s)"
proof (rule rfind_at)
  show "length s < length (s @ c # e)" by simp
  show "(s @ c # e) ! length s = c" by simp
next
  fix j assume a: "length s < j" "j < length (s @ c # e)"
  then have "(s @ c # e) ! j = e ! (j - Suc (length s))"
    by (simp add: nth_append nth_Cons')
  moreover have "j - Suc (length s) < length e" using a by simp
  ultimately show "(s @ c # e) ! j \<noteq> c" using assms by (metis nth_mem)
qed

lemma name_stem_ext:
  assumes "s \<noteq> []" "e \<noteq> []" "CHR ''.'' \<notin> set e"
  shows "name_stem (s @ ''.'' @ e) = s"
proof -
  have r: "rfind CHR ''.'' (s @ CHR ''.'' # e) = int (length s)" by (rule rfind_last [OF assms(3)])
  have "0 < int (length s)" using assms(1) by simp
  moreover have "int (length s) < int (length (s @ CHR ''.'' # e)) - 1" using assms(2) by simp
  ultimately show ?thesis by (simp add: name_stem_def r)
qed

lemma name_stem_no_dot: "CHR ''.'' \<notin> set n \<Longrightarrow> name_stem n = n"
  by (simp add: name_stem_def rfind_none)

lemma name_stem_hidden: "CHR ''.'' \<notin> set e \<Longrightarrow> name_stem (''.'' @ e) = ''.'' @ e"
  using rfind_last [of "CHR ''.''" e "[]"] by (simp add: name_stem_def)

lemma name_stem_trailing: "name_stem (s @ ''.'') = s @ ''.''"
  using rfind_last [of "CHR ''.''" "[]" s] by (simp add: name_stem_def)

lemma Path_stem_plain:
  "CHR ''/'' \<notin> set n \<Longrightarrow> n \<noteq> [] \<Longrightarrow> n \<noteq> ''.'' \<Longrightarrow> Path_stem n = name_stem n"
  by (simp add: Path_stem_def parse_parts_plain path_name_def)

lemma split_slash_last:
  "CHR ''/'' \<notin> set n \<Longrightarrow> split_slash (d @ ''/'' @ n) = split_slash d @ [n]"
  by (induction d) (auto simp: split_slash_plain split_slash_nonempty)

lemma Path_stem_dir:
  assumes "CHR ''/'' \<notin> set n" "n \<noteq> []" "n \<noteq> ''.''"
  shows "Path_stem (d @ ''/'' @ n) = Path_stem n"
proof -
  have "parse_parts (d @ ''/'' @ n) = parse_parts d @ [n]"
    unfolding parse_parts_def split_slash_last [OF assms(1)] using assms(2,3) by simp
  then show ?thesis using assms by (simp add: Path_stem_def parse_parts_plain path_name_def)
qed

lemma hex_digit_eq: "hex_digit a = hex_digit b \<longleftrightarrow> a mod 16 = b mod 16"
proof -
  have d: "distinct ''0123456789abcdef''" by simp
  have la: "nat (a mod 16) < length ''0123456789abcdef''" by simp
  have lb: "nat (b mod 16) < length ''0123456789abcdef''" by simp
  have "hex_digit a = hex_digit b \<longleftrightarrow> nat (a mod 16) = nat (b mod 16)"
    unfolding hex_digit_def using nth_eq_iff_index_eq [OF d la lb] .
  also have "\<dots> \<longleftrightarrow> a mod 16 = b mod 16" by auto
  finally show ?thesis .
qed

lemma digit_step:
  "0 \<le> a \<Longrightarrow> a < 16 \<Longrightarrow> 0 \<le> b \<Longrightarrow> b < 16 \<Longrightarrow>
   (a = b \<and> A = B) = (16 * A + a = 16 * B + b)"
  for a b A B :: int
  by presburger

lemma digits_eq_mod:
  "(\<forall>k<n. (x div 16 ^ k) mod 16 = (y div 16 ^ k) mod 16) \<longleftrightarrow> x mod 16 ^ n = y mod 16 ^ n"
  for x y :: int
proof (induction n arbitrary: x y)
  case 0
  show ?case by simp
next
  case (Suc n)
  have sh: "\<And>z k. (z::int) div 16 ^ Suc k = (z div 16) div 16 ^ k"
    by (simp add: zdiv_zmult2_eq)
  have md: "\<And>z::int. z mod 16 ^ Suc n = 16 * ((z div 16) mod 16 ^ n) + z mod 16"
    by (simp add: zmod_zmult2_eq)
  have "(\<forall>k<Suc n. (x div 16 ^ k) mod 16 = (y div 16 ^ k) mod 16) \<longleftrightarrow>
      x mod 16 = y mod 16 \<and> (\<forall>k<n. (x div 16 ^ Suc k) mod 16 = (y div 16 ^ Suc k) mod 16)"
    by (auto simp: less_Suc_eq_0_disj simp del: power_Suc)
  also have "\<dots> \<longleftrightarrow> x mod 16 = y mod 16 \<and> (x div 16) mod 16 ^ n = (y div 16) mod 16 ^ n"
    unfolding sh using Suc.IH [of "x div 16" "y div 16"] by simp
  also have "\<dots> \<longleftrightarrow> x mod 16 ^ Suc n = y mod 16 ^ Suc n"
  proof -
    have bx: "0 \<le> x mod 16" "x mod 16 < 16" "0 \<le> y mod 16" "y mod 16 < 16" by simp_all
    show ?thesis unfolding md by (rule digit_step [OF bx])
  qed
  finally show ?case .
qed

lemma unique_id_digits:
  "unique_id_of u = map (\<lambda>i. hex_digit (u div 16 ^ i)) (rev [24..<32])"
proof -
  have "take 8 (rev [0..<32]) = rev [24..<32]" by (simp add: take_rev drop_upt)
  then show ?thesis by (simp add: unique_id_take hex32_def take_map)
qed

lemma unique_id_eq:
  "unique_id_of u = unique_id_of u' \<longleftrightarrow>
     (u div 2 ^ 96) mod 2 ^ 32 = (u' div 2 ^ 96) mod 2 ^ 32"
proof -
  have "unique_id_of u = unique_id_of u' \<longleftrightarrow>
      (\<forall>i\<in>{24..<32}. (u div 16 ^ i) mod 16 = (u' div 16 ^ i) mod 16)"
    unfolding unique_id_digits by (simp only: map_eq_conv set_rev set_upt hex_digit_eq)
  also have "\<dots> \<longleftrightarrow>
      (\<forall>k<8. ((u div 16 ^ 24) div 16 ^ k) mod 16 = ((u' div 16 ^ 24) div 16 ^ k) mod 16)"
  proof -
    have sh: "\<And>(z::int) k. (z div 16 ^ 24) div 16 ^ k = z div 16 ^ (24 + k)"
      by (simp add: zdiv_zmult2_eq power_add)
    show ?thesis unfolding sh
    proof (intro iffI allI impI ballI)
      fix k :: nat assume a: "\<forall>i\<in>{24..<32}. (u div 16 ^ i) mod 16 = (u' div 16 ^ i) mod 16"
        and "k < 8"
      then have "24 + k \<in> {24..<32}" by simp
      with a show "u div 16 ^ (24 + k) mod 16 = u' div 16 ^ (24 + k) mod 16" by blast
    next
      fix i :: nat
      assume a: "\<forall>k<8. u div 16 ^ (24 + k) mod 16 = u' div 16 ^ (24 + k) mod 16"
        and i: "i \<in> {24..<32}"
      then have "i - 24 < 8" "24 + (i - 24) = i" by auto
      with a show "u div 16 ^ i mod 16 = u' div 16 ^ i mod 16" by metis
    qed
  qed
  also have "\<dots> \<longleftrightarrow> (u div 16 ^ 24) mod 16 ^ 8 = (u' div 16 ^ 24) mod 16 ^ 8"
    by (rule digits_eq_mod)
  also have "\<dots> \<longleftrightarrow> (u div 2 ^ 96) mod 2 ^ 32 = (u' div 2 ^ 96) mod 2 ^ 32"
    by simp
  finally show ?thesis .
qed

section \<open>The claims\<close>

text \<open>
  C1. Claimed: every externally supplied file name is reduced to its final path segment
  before it is joined to a directory, so nothing is read or written outside \<open>Uploads\<close> and
  \<open>Converted\<close>. The code does so for \<open>file.filename\<close> in \<open>upload_file\<close> and for \<open>file_name\<close> in the
  two handlers by file name only. Evaluated here: converting the uploaded \<open>a.txt\<close> with
  \<open>output_filename = "../uploads/pwn"\<close> answers 200 and writes \<open>/app/uploads/pwn.md\<close>, outside
  \<open>Converted\<close>; \<open>convert_file\<close> joins \<open>x/a.txt\<close> as two segments below \<open>Uploads\<close>, where the
  sanitised join would give \<open>/app/uploads/a.txt\<close>.
\<close>

theorem C1_output_written_outside_converted:
  "convert_file_by_name heading_converter example_uuid 5 ''a.txt'' (Some ''../uploads/pwn'')
       example_fs =
     (JSONResponse 200
        (ConvertBody ''a.txt'' ''../uploads/pwn.md'' (Some [''app'', ''uploads'', ''a.txt''])
           [''app'', ''converted'', ''..'', ''uploads'', ''pwn.md''] 4 ''.txt'' ''3f2a9c1e''),
      example_fs @ [([''app'', ''uploads'', ''pwn.md''], File ''# hi'' 5)])
   \<and> fst (snd (convert_file_try heading_converter example_uuid 5 ''x/a.txt'' ''hello'' None
                  example_fs)) =
       Some [''app'', ''uploads'', ''3f2a9c1e_x'', ''a.txt'']
   \<and> path_div UPLOAD_DIR (basename ''x/a.txt'') = [''app'', ''uploads'', ''a.txt'']"
  by code_simp

text \<open>
  C2. Claimed: the temporary file of \<open>POST /convert\<close> is deleted on every exit path. Evaluated
  here: when the converter returns empty text for the upload \<open>a.txt\<close>, the answer is 422 and
  the temporary file \<open>3f2a9c1e_a.txt\<close> is still in \<open>Uploads\<close> with the uploaded bytes: the
  \<open>except HTTPException: raise\<close> branch does not clean up.
\<close>

theorem C2_temp_file_left_after_422:
  "convert_file empty_converter example_uuid 5 ''a.txt'' ''hello'' None example_fs =
     (HTTPError 422 ''Conversion failed: 422: Unable to convert file: a.txt'',
      example_fs @ [([''app'', ''uploads'', ''3f2a9c1e_a.txt''], File ''hello'' 5)])
   \<and> read_file
         (snd (convert_file empty_converter example_uuid 5 ''a.txt'' ''hello'' None example_fs))
         (path_div UPLOAD_DIR (unique_id_of example_uuid @ ''_'' @ ''a.txt'')) = Some ''hello''"
  by code_simp

text \<open>
  C3. Claimed: for every sanitised file name that no file in \<open>Uploads\<close> carries, the first
  upload answers 200 and stores the bytes, and a second upload of the name answers 409 and
  leaves the file as it is. As stated this fails where the sanitised name is empty or is
  \<open>.\<close> or \<open>..\<close>: the name \<open>docs/\<close> is not empty, its base name is, the joined path is the
  \<open>Uploads\<close> directory itself, and the first upload answers 409.
\<close>

theorem C3_counterexample:
  "basename ''docs/'' = []
   \<and> entries example_fs UPLOAD_DIR = [[''app'', ''uploads'', ''a.txt'']]
   \<and> status_code (fst (upload_file 5 ''docs/'' ''x'' example_fs)) = 409"
  by code_simp

text \<open>
  C3, amended. With the \<open>Uploads\<close> directory in place, for every file name whose base name is
  not empty and is neither \<open>.\<close> nor \<open>..\<close>, and that no entry of \<open>Uploads\<close> carries: the upload
  answers 200 with the base name, its path and the size, the stored file reads back as the
  uploaded bytes, and a second upload of the same name, with any content and at any time,
  answers 409 and changes nothing.
\<close>

theorem C3_upload_then_conflict:
  assumes app: "is_dir_node fs [''app'']" and up: "is_dir_node fs UPLOAD_DIR"
    and bn: "basename filename = name"
    and nm: "name \<noteq> []" "name \<noteq> ''.''" "name \<noteq> ''..''"
    and free: "lookup fs (UPLOAD_DIR @ [name]) = None"
  shows "upload_file now filename content fs =
           (JSONResponse 200 (UploadBody name (UPLOAD_DIR @ [name]) (length content)),
            AList.update (UPLOAD_DIR @ [name]) (File content now) fs)
       \<and> read_file (AList.update (UPLOAD_DIR @ [name]) (File content now) fs)
             (UPLOAD_DIR @ [name]) = Some content
       \<and> upload_file now' filename content'
             (AList.update (UPLOAD_DIR @ [name]) (File content now) fs) =
           (HTTPError 409 (''File '' @ quoted name @ '' already exists''),
            AList.update (UPLOAD_DIR @ [name]) (File content now) fs)"
proof -
  let ?p = "[''app'', ''uploads'', name]"
  let ?fs' = "AList.update ?p (File content now) fs"
  have fn: "filename \<noteq> []" using bn nm(1) basename_Nil by auto
  have ns: "CHR ''/'' \<notin> set name" using basename_no_slash [of filename] bn by simp
  have up': "is_dir_node fs [''app'', ''uploads'']" using up by (simp add: UPLOAD_DIR_def)
  have free': "lookup fs ?p = None" using free by (simp add: UPLOAD_DIR_def)
  have p: "path_div UPLOAD_DIR name = ?p" "resolve fs ?p = Some ?p"
    using child_path [OF ns nm app up'] by (simp_all add: UPLOAD_DIR_def)
  have ne: "\<not> path_exists fs ?p" by (simp add: path_exists_def p(2) free')
  have w: "write_file fs ?p content now = Inr ?fs'"
    by (simp add: write_file_def p(2) free')
  have a: "upload_file now filename content fs =
      (JSONResponse 200 (UploadBody name ?p (length content)), ?fs')"
    using fn ne w by (simp add: upload_file_def upload_file_try_def bn p(1) Let_def)
  have d: "is_dir_node ?fs' [''app'']" "is_dir_node ?fs' [''app'', ''uploads'']"
    using app up' by (simp_all add: is_dir_update_file)
  have p': "resolve ?fs' ?p = Some ?p" using d nm(3) by (simp add: resolve_child)
  have l: "lookup ?fs' ?p = Some (File content now)" by (simp add: lookup_update)
  have b: "read_file ?fs' ?p = Some content" by (simp add: read_file_def p' l)
  have ex: "path_exists ?fs' ?p" by (simp add: path_exists_def p' l)
  have c: "upload_file now' filename content' ?fs' =
      (HTTPError 409 (''File '' @ quoted name @ '' already exists''), ?fs')"
    using fn ex by (simp add: upload_file_def upload_file_try_def bn p(1) Let_def)
  from a b c show ?thesis by (simp add: UPLOAD_DIR_def)
qed

theorem C3_witness:
  "is_dir_node example_fs [''app''] \<and> is_dir_node example_fs UPLOAD_DIR
   \<and> basename ''../../b.txt'' = ''b.txt''
   \<and> lookup example_fs (UPLOAD_DIR @ [''b.txt'']) = None
   \<and> status_code (fst (upload_file 5 ''../../b.txt'' ''x'' example_fs)) = 200
   \<and> read_file (snd (upload_file 5 ''../../b.txt'' ''x'' example_fs))
        (UPLOAD_DIR @ [''b.txt'']) = Some ''x''
   \<and> status_code (fst (upload_file 6 ''../../b.txt'' ''y''
        (snd (upload_file 5 ''../../b.txt'' ''x'' example_fs)))) = 409"
proof -
  have h1: "is_dir_node example_fs [''app'']" by code_simp
  have h2: "is_dir_node example_fs UPLOAD_DIR" by code_simp
  have h3: "basename ''../../b.txt'' = ''b.txt''" by code_simp
  have h4: "''b.txt'' \<noteq> []" "''b.txt'' \<noteq> ''.''" "''b.txt'' \<noteq> ''..''" by simp_all
  have h5: "lookup example_fs (UPLOAD_DIR @ [''b.txt'']) = None" by code_simp
  from C3_upload_then_conflict [OF h1 h2 h3 h4 h5, of 5 "''x''" 6 "''y''"] h1 h2 h3 h5
  show ?thesis by simp
qed




text \<open>
  C5. Claimed: the form-based and the path-parameter-based conversion by file name behave
  the same for every pair of requests that carry the same \<open>file_name\<close> and \<open>output_filename\<close>.
  The two handler bodies are the same; the routes are not, because the path parameter of the
  \<open>GET\<close> route is a single segment. For \<open>file_name = sub/dir/a.txt\<close> the \<open>POST\<close> request converts
  the uploaded \<open>a.txt\<close> and answers 200, the \<open>GET\<close> request matches no route and is answered
  404 with nothing written.
\<close>

theorem C5_counterexample:
  "status_code (fst (post_convert_by_filename heading_converter example_uuid 5
                       ''sub/dir/a.txt'' None example_fs)) = 200
   \<and> status_code (fst (get_convert_by_filename heading_converter example_uuid 5
                       ''sub/dir/a.txt'' None example_fs)) = 404
   \<and> snd (get_convert_by_filename heading_converter example_uuid 5
            ''sub/dir/a.txt'' None example_fs) = example_fs
   \<and> lookup (snd (post_convert_by_filename heading_converter example_uuid 5
                    ''sub/dir/a.txt'' None example_fs))
        (CONVERTED_DIR @ [''a_3f2a9c1e.md'']) = Some (File ''# hi'' 5)"
  by code_simp

text \<open>
  C5, amended. For every \<open>file_name\<close> that is not empty and holds no slash, and every
  \<open>output_filename\<close> (absent, empty or not), the \<open>GET\<close> request and the \<open>POST\<close> request give
  the same response and the same file system, for the same token, converter, time and
  file system.
\<close>

theorem C5_routes_agree_on_segments:
  assumes "file_name \<noteq> []" and "CHR ''/'' \<notin> set file_name"
  shows "get_convert_by_filename md_convert uuid4 now file_name output_filename fs =
         post_convert_by_filename md_convert uuid4 now file_name output_filename fs"
proof -
  have m: "match_segment ''/convert-by-filename/'' (''/convert-by-filename/'' @ file_name)
      = Some file_name"
    by (rule match_segment_plain [OF assms])
  show ?thesis
    unfolding get_convert_by_filename_def post_convert_by_filename_def m
    using assms(1) by (simp add: convert_file_by_name_get_eq by_name_form_optional)
qed

theorem C5_witness:
  "''a.txt'' \<noteq> [] \<and> CHR ''/'' \<notin> set ''a.txt''
   \<and> get_convert_by_filename heading_converter example_uuid 5 ''a.txt'' (Some []) example_fs =
     post_convert_by_filename heading_converter example_uuid 5 ''a.txt'' (Some []) example_fs
   \<and> status_code (fst (get_convert_by_filename heading_converter example_uuid 5 ''a.txt''
                         (Some []) example_fs)) = 200"
proof -
  have h1: "''a.txt'' \<noteq> []" and h2: "CHR ''/'' \<notin> set ''a.txt''" by simp_all
  have s: "status_code (fst (get_convert_by_filename heading_converter example_uuid 5 ''a.txt''
                         (Some []) example_fs)) = 200" by code_simp
  from C5_routes_agree_on_segments [OF h1 h2, of heading_converter example_uuid 5 "Some []" example_fs]
    h1 h2 s show ?thesis by simp
qed

text \<open>
  C6. Claimed: a conversion with the override \<open>report\<close> names its output \<open>report.md\<close>, and one
  without override names it \<open>{stem}_{token}.md\<close> with an 8-character token that differs
  across repeated conversions of the same input. The token is the first eight characters
  of the printed UUID, so two requests whose UUIDs differ later share it: two successive
  conversions of \<open>a.txt\<close> with the distinct UUIDs \<open>example_uuid\<close> and \<open>example_uuid + 1\<close> both
  carry the token \<open>3f2a9c1e\<close> and both name their output \<open>a_3f2a9c1e.md\<close>.
\<close>

theorem C6_counterexample:
  "example_uuid \<noteq> example_uuid + 1
   \<and> conversion_id (fst (convert_file_by_name heading_converter example_uuid 5 ''a.txt'' None
        example_fs)) = Some ''3f2a9c1e''
   \<and> conversion_id (fst (convert_file_by_name heading_converter (example_uuid + 1) 6 ''a.txt''
        None
        (snd (convert_file_by_name heading_converter example_uuid 5 ''a.txt'' None example_fs))))
      = Some ''3f2a9c1e''
   \<and> converted_filename (fst (convert_file_by_name heading_converter example_uuid 5 ''a.txt''
        None example_fs)) = Some ''a_3f2a9c1e.md''
   \<and> converted_filename (fst (convert_file_by_name heading_converter (example_uuid + 1) 6
        ''a.txt'' None
        (snd (convert_file_by_name heading_converter example_uuid 5 ''a.txt'' None example_fs))))
      = Some ''a_3f2a9c1e.md''"
  by code_simp

text \<open>
  C6, amended. For every conversion that answers 200, with an override free of directory
  separators or with none: the response names the output \<open>md_filename_of\<close>, which is
  \<open>report.md\<close> for the override \<open>report\<close> whatever the original name is, and
  \<open>{stem}_{token}.md\<close> without an override; \<open>Converted\<close> then holds a regular file of that
  name with the converter's text. The stem is the final segment of the original name up to
  its last dot, and the whole segment when it has no dot or its only dot comes first or
  last. The token is eight lower-case hexadecimal characters that print the top 32 of the
  128 bits of the request's UUID: two requests have the same token exactly when these bits
  agree. For \<open>POST /convert\<close> the \<open>Uploads\<close> directory is taken without subdirectories.
\<close>

theorem C6_converted_name:
  assumes pl: "case ofn of None \<Rightarrow> True | Some ov \<Rightarrow> CHR ''/'' \<notin> set ov"
  shows "md_filename_of (Some ''report'') stem tok = ''report.md''
     \<and> md_filename_of None stem tok = stem @ ''_'' @ tok @ ''.md''
     \<and> (CHR ''/'' \<notin> set s \<and> CHR ''/'' \<notin> set e \<and> s \<noteq> [] \<and> e \<noteq> [] \<and> CHR ''.'' \<notin> set e \<longrightarrow>
          Path_stem (s @ ''.'' @ e) = s)
     \<and> (CHR ''/'' \<notin> set e \<and> CHR ''.'' \<notin> set e \<longrightarrow> Path_stem e = e)
     \<and> (CHR ''/'' \<notin> set e \<and> CHR ''.'' \<notin> set e \<and> e \<noteq> [] \<longrightarrow>
          Path_stem (''.'' @ e) = ''.'' @ e)
     \<and> (CHR ''/'' \<notin> set s \<and> s \<noteq> [] \<longrightarrow> Path_stem (s @ ''.'') = s @ ''.'')
     \<and> (CHR ''/'' \<notin> set n \<and> n \<noteq> [] \<and> n \<noteq> ''.'' \<longrightarrow>
          Path_stem (d @ ''/'' @ n) = Path_stem n)
     \<and> length (unique_id_of u) = 8
     \<and> set (unique_id_of u) \<subseteq> set ''0123456789abcdef''
     \<and> (unique_id_of u = unique_id_of u' \<longleftrightarrow>
          (u div 2 ^ 96) mod 2 ^ 32 = (u' div 2 ^ 96) mod 2 ^ 32)
     \<and> (status_code (fst (convert_file_by_name md u now fn ofn fs)) = 200 \<longrightarrow>
          converted_filename (fst (convert_file_by_name md u now fn ofn fs)) =
            Some (md_filename_of ofn (Path_stem (basename fn)) (unique_id_of u))
        \<and> (\<exists>tc. tc \<noteq> [] \<and> md fs (path_div UPLOAD_DIR (basename fn)) = Returned (Some tc)
              \<and> lookup (snd (convert_file_by_name md u now fn ofn fs))
                   (CONVERTED_DIR @ [md_filename_of ofn (Path_stem (basename fn)) (unique_id_of u)])
                 = Some (File tc now)))
     \<and> (status_code (fst (convert_file_by_name_get md u now fn ofn fs)) = 200 \<longrightarrow>
          converted_filename (fst (convert_file_by_name_get md u now fn ofn fs)) =
            Some (md_filename_of ofn (Path_stem (basename fn)) (unique_id_of u))
        \<and> (\<exists>tc. tc \<noteq> [] \<and> md fs (path_div UPLOAD_DIR (basename fn)) = Returned (Some tc)
              \<and> lookup (snd (convert_file_by_name_get md u now fn ofn fs))
                   (CONVERTED_DIR @ [md_filename_of ofn (Path_stem (basename fn)) (unique_id_of u)])
                 = Some (File tc now)))
     \<and> (status_code (fst (convert_file md u now filename content ofn fs)) = 200
          \<and> no_subdirs fs UPLOAD_DIR \<longrightarrow>
          converted_filename (fst (convert_file md u now filename content ofn fs)) =
            Some (md_filename_of ofn (Path_stem filename) (unique_id_of u))
        \<and> (\<exists>fs1 tc. tc \<noteq> []
              \<and> write_file fs (path_div UPLOAD_DIR (unique_id_of u @ ''_'' @ filename)) content now
                  = Inr fs1
              \<and> md fs1 (path_div UPLOAD_DIR (unique_id_of u @ ''_'' @ filename))
                  = Returned (Some tc)
              \<and> lookup (snd (convert_file md u now filename content ofn fs))
                   (CONVERTED_DIR @ [md_filename_of ofn (Path_stem filename) (unique_id_of u)])
                 = Some (File tc now)))"
proof -
  have a: "md_filename_of (Some ''report'') stem tok = ''report.md''"
    by (simp add: md_filename_of_def)
  have b: "md_filename_of None stem tok = stem @ ''_'' @ tok @ ''.md''"
    by (simp add: md_filename_of_def)
  have c: "length (unique_id_of u) = 8" by (rule length_unique_id)
  have p1: "CHR ''/'' \<notin> set s \<and> CHR ''/'' \<notin> set e \<and> s \<noteq> [] \<and> e \<noteq> [] \<and> CHR ''.'' \<notin> set e \<longrightarrow>
      Path_stem (s @ ''.'' @ e) = s"
  proof (intro impI, elim conjE)
    assume h: "CHR ''/'' \<notin> set s" "CHR ''/'' \<notin> set e" "s \<noteq> []" "e \<noteq> []"
      "CHR ''.'' \<notin> set e"
    have "CHR ''/'' \<notin> set (s @ ''.'' @ e)" using h(1,2) by simp
    moreover have "s @ ''.'' @ e \<noteq> []" by simp
    moreover have "s @ ''.'' @ e \<noteq> ''.''" using h(3) by (cases s) simp_all
    ultimately have "Path_stem (s @ ''.'' @ e) = name_stem (s @ ''.'' @ e)"
      by (rule Path_stem_plain)
    then show "Path_stem (s @ ''.'' @ e) = s" using name_stem_ext [OF h(3,4,5)] by simp
  qed
  have p2: "CHR ''/'' \<notin> set e \<and> CHR ''.'' \<notin> set e \<longrightarrow> Path_stem e = e"
  proof (intro impI, elim conjE)
    assume h: "CHR ''/'' \<notin> set e" "CHR ''.'' \<notin> set e"
    show "Path_stem e = e"
    proof (cases "e = []")
      case True
      then show ?thesis by (simp add: Path_stem_def parse_parts_def path_name_def name_stem_no_dot)
    next
      case False
      moreover have "e \<noteq> ''.''" using h(2) by auto
      ultimately have "Path_stem e = name_stem e" using h(1) by (simp add: Path_stem_plain)
      then show ?thesis using name_stem_no_dot [OF h(2)] by simp
    qed
  qed
  have p3: "CHR ''/'' \<notin> set e \<and> CHR ''.'' \<notin> set e \<and> e \<noteq> [] \<longrightarrow>
      Path_stem (''.'' @ e) = ''.'' @ e"
  proof (intro impI, elim conjE)
    assume h: "CHR ''/'' \<notin> set e" "CHR ''.'' \<notin> set e" "e \<noteq> []"
    have "CHR ''/'' \<notin> set (''.'' @ e)" using h(1) by simp
    moreover have "''.'' @ e \<noteq> []" by simp
    moreover have "''.'' @ e \<noteq> ''.''" using h(3) by simp
    ultimately have "Path_stem (''.'' @ e) = name_stem (''.'' @ e)" by (rule Path_stem_plain)
    then show "Path_stem (''.'' @ e) = ''.'' @ e" using name_stem_hidden [OF h(2)] by simp
  qed
  have p4: "CHR ''/'' \<notin> set s \<and> s \<noteq> [] \<longrightarrow> Path_stem (s @ ''.'') = s @ ''.''"
  proof (intro impI, elim conjE)
    assume h: "CHR ''/'' \<notin> set s" "s \<noteq> []"
    have "CHR ''/'' \<notin> set (s @ ''.'')" using h(1) by simp
    moreover have "s @ ''.'' \<noteq> []" by simp
    moreover have "s @ ''.'' \<noteq> ''.''" using h(2) by simp
    ultimately have "Path_stem (s @ ''.'') = name_stem (s @ ''.'')" by (rule Path_stem_plain)
    then show "Path_stem (s @ ''.'') = s @ ''.''" using name_stem_trailing [of s] by simp
  qed
  have p5: "CHR ''/'' \<notin> set n \<and> n \<noteq> [] \<and> n \<noteq> ''.'' \<longrightarrow>
      Path_stem (d @ ''/'' @ n) = Path_stem n"
    using Path_stem_dir [of n d] by blast
  have c': "set (unique_id_of u) \<subseteq> set ''0123456789abcdef''" by (rule unique_id_chars)
  have d: "unique_id_of u = unique_id_of u' \<longleftrightarrow>
      (u div 2 ^ 96) mod 2 ^ 32 = (u' div 2 ^ 96) mod 2 ^ 32"
    by (rule unique_id_eq)
  have ns1: "CHR ''/'' \<notin> set (md_filename_of ofn (Path_stem (basename fn)) (unique_id_of u))"
    by (rule md_filename_no_slash [OF pl Path_stem_no_slash])
  have ns2: "CHR ''/'' \<notin> set (md_filename_of ofn (Path_stem filename) (unique_id_of u))"
    by (rule md_filename_no_slash [OF pl Path_stem_no_slash])
  have e: "status_code (fst (convert_file_by_name md u now fn ofn fs)) = 200 \<longrightarrow>
          converted_filename (fst (convert_file_by_name md u now fn ofn fs)) =
            Some (md_filename_of ofn (Path_stem (basename fn)) (unique_id_of u))
        \<and> (\<exists>tc. tc \<noteq> [] \<and> md fs (path_div UPLOAD_DIR (basename fn)) = Returned (Some tc)
              \<and> lookup (snd (convert_file_by_name md u now fn ofn fs))
                   (CONVERTED_DIR @ [md_filename_of ofn (Path_stem (basename fn)) (unique_id_of u)])
                 = Some (File tc now))"
    using by_name_entry [OF _ ns1] by blast
  have f: "status_code (fst (convert_file md u now filename content ofn fs)) = 200
          \<and> no_subdirs fs UPLOAD_DIR \<longrightarrow>
          converted_filename (fst (convert_file md u now filename content ofn fs)) =
            Some (md_filename_of ofn (Path_stem filename) (unique_id_of u))
        \<and> (\<exists>fs1 tc. tc \<noteq> []
              \<and> write_file fs (path_div UPLOAD_DIR (unique_id_of u @ ''_'' @ filename)) content now
                  = Inr fs1
              \<and> md fs1 (path_div UPLOAD_DIR (unique_id_of u @ ''_'' @ filename))
                  = Returned (Some tc)
              \<and> lookup (snd (convert_file md u now filename content ofn fs))
                   (CONVERTED_DIR @ [md_filename_of ofn (Path_stem filename) (unique_id_of u)])
                 = Some (File tc now))"
  proof (intro impI, elim conjE)
    assume ok: "status_code (fst (convert_file md u now filename content ofn fs)) = 200"
      and flat: "no_subdirs fs UPLOAD_DIR"
    from convert_file_entry [OF ok flat ns2] show
      "converted_filename (fst (convert_file md u now filename content ofn fs)) =
            Some (md_filename_of ofn (Path_stem filename) (unique_id_of u))
        \<and> (\<exists>fs1 tc. tc \<noteq> []
              \<and> write_file fs (path_div UPLOAD_DIR (unique_id_of u @ ''_'' @ filename)) content now
                  = Inr fs1
              \<and> md fs1 (path_div UPLOAD_DIR (unique_id_of u @ ''_'' @ filename))
                  = Returned (Some tc)
              \<and> lookup (snd (convert_file md u now filename content ofn fs))
                   (CONVERTED_DIR @ [md_filename_of ofn (Path_stem filename) (unique_id_of u)])
                 = Some (File tc now))"
      by blast
  qed
  have g: "status_code (fst (convert_file_by_name_get md u now fn ofn fs)) = 200 \<longrightarrow>
          converted_filename (fst (convert_file_by_name_get md u now fn ofn fs)) =
            Some (md_filename_of ofn (Path_stem (basename fn)) (unique_id_of u))
        \<and> (\<exists>tc. tc \<noteq> [] \<and> md fs (path_div UPLOAD_DIR (basename fn)) = Returned (Some tc)
              \<and> lookup (snd (convert_file_by_name_get md u now fn ofn fs))
                   (CONVERTED_DIR @ [md_filename_of ofn (Path_stem (basename fn)) (unique_id_of u)])
                 = Some (File tc now))"
    using e unfolding convert_file_by_name_get_eq .
  show ?thesis
    by (intro conjI) (rule a b p1 p2 p3 p4 p5 c c' d e g f)+
qed

theorem C6_witness:
  "CHR ''/'' \<notin> set ''report''
   \<and> status_code (fst (convert_file_by_name heading_converter example_uuid 5 ''a.txt''
          (Some ''report'') example_fs)) = 200
   \<and> status_code (fst (convert_file_by_name_get heading_converter example_uuid 5 ''a.txt''
          None example_fs)) = 200
   \<and> status_code (fst (convert_file heading_converter example_uuid 5 ''b.tar.gz'' ''hello''
          None example_fs)) = 200
   \<and> no_subdirs example_fs UPLOAD_DIR
   \<and> converted_filename (fst (convert_file_by_name heading_converter example_uuid 5 ''a.txt''
          (Some ''report'') example_fs)) = Some ''report.md''
   \<and> (\<exists>tc. tc \<noteq> [] \<and> lookup (snd (convert_file_by_name heading_converter example_uuid 5
          ''a.txt'' (Some ''report'') example_fs)) (CONVERTED_DIR @ [''report.md''])
        = Some (File tc 5))
   \<and> converted_filename (fst (convert_file_by_name_get heading_converter example_uuid 5
          ''a.txt'' None example_fs)) = Some ''a_3f2a9c1e.md''
   \<and> (\<exists>tc. tc \<noteq> [] \<and> lookup (snd (convert_file_by_name_get heading_converter example_uuid 5
          ''a.txt'' None example_fs)) (CONVERTED_DIR @ [''a_3f2a9c1e.md''])
        = Some (File tc 5))
   \<and> converted_filename (fst (convert_file heading_converter example_uuid 5 ''b.tar.gz''
          ''hello'' None example_fs)) = Some ''b.tar_3f2a9c1e.md''
   \<and> (\<exists>tc. tc \<noteq> [] \<and> lookup (snd (convert_file heading_converter example_uuid 5
          ''b.tar.gz'' ''hello'' None example_fs)) (CONVERTED_DIR @ [''b.tar_3f2a9c1e.md''])
        = Some (File tc 5))
   \<and> Path_stem ''b.tar.gz'' = ''b.tar''
   \<and> Path_stem ''README'' = ''README''
   \<and> Path_stem ''.bashrc'' = ''.bashrc''
   \<and> Path_stem ''notes.'' = ''notes.''
   \<and> Path_stem ''x/b.tar.gz'' = Path_stem ''b.tar.gz''
   \<and> unique_id_of example_uuid = unique_id_of (example_uuid + 1)
   \<and> unique_id_of example_uuid \<noteq> unique_id_of 0"
proof -
  have h0: "case Some ''report'' of None \<Rightarrow> True | Some ov \<Rightarrow> CHR ''/'' \<notin> set ov" by simp
  have h0': "case None :: string option of None \<Rightarrow> True | Some ov \<Rightarrow> CHR ''/'' \<notin> set ov"
    by simp
  have g0: "CHR ''/'' \<notin> set ''report''" by simp
  have h1: "status_code (fst (convert_file_by_name heading_converter example_uuid 5 ''a.txt''
          (Some ''report'') example_fs)) = 200" by code_simp
  have h2: "status_code (fst (convert_file_by_name_get heading_converter example_uuid 5 ''a.txt''
          None example_fs)) = 200" by code_simp
  have h3: "status_code (fst (convert_file heading_converter example_uuid 5 ''b.tar.gz''
          ''hello'' None example_fs)) = 200" by code_simp
  have h4: "no_subdirs example_fs UPLOAD_DIR" by code_simp
  have n1: "md_filename_of (Some ''report'') (Path_stem (basename ''a.txt''))
      (unique_id_of example_uuid) = ''report.md''" by code_simp
  have n2: "md_filename_of None (Path_stem (basename ''a.txt''))
      (unique_id_of example_uuid) = ''a_3f2a9c1e.md''" by code_simp
  have n3: "md_filename_of None (Path_stem ''b.tar.gz'')
      (unique_id_of example_uuid) = ''b.tar_3f2a9c1e.md''" by code_simp
  have b1: "(example_uuid div 2 ^ 96) mod 2 ^ 32 = ((example_uuid + 1) div 2 ^ 96) mod 2 ^ 32"
    by (simp add: example_uuid_def)
  have b2: "(example_uuid div 2 ^ 96) mod 2 ^ 32 \<noteq> (0 div 2 ^ 96) mod 2 ^ 32"
    by (simp add: example_uuid_def)
  note R = C6_converted_name [OF h0, where md = heading_converter and u = example_uuid
      and u' = "example_uuid + 1" and now = 5 and fn = "''a.txt''" and fs = example_fs
      and filename = "''b.tar.gz''" and content = "''hello''" and stem = "''a''"
      and tok = "''t''" and s = "''b.tar''" and e = "''gz''" and n = "''b.tar.gz''"
      and d = "''x''"]
  note N = C6_converted_name [OF h0', where md = heading_converter and u = example_uuid
      and u' = 0 and now = 5 and fn = "''a.txt''" and fs = example_fs
      and filename = "''b.tar.gz''" and content = "''hello''" and stem = "''a''"
      and tok = "''t''" and s = "''notes''" and e = "''README''" and n = "''b.tar.gz''"
      and d = "''x''"]
  note B = C6_converted_name [OF h0', where u = example_uuid and s = "''b''" and e = "''bashrc''"]
  from R h1 have r1: "converted_filename (fst (convert_file_by_name heading_converter
          example_uuid 5 ''a.txt'' (Some ''report'') example_fs)) = Some ''report.md''"
    unfolding n1 by blast
  from R h1 have r2: "\<exists>tc. tc \<noteq> [] \<and> lookup (snd (convert_file_by_name heading_converter
          example_uuid 5 ''a.txt'' (Some ''report'') example_fs)) (CONVERTED_DIR @ [''report.md''])
        = Some (File tc 5)"
    unfolding n1 by blast
  from N h2 have r3: "converted_filename (fst (convert_file_by_name_get heading_converter
          example_uuid 5 ''a.txt'' None example_fs)) = Some ''a_3f2a9c1e.md''"
    unfolding n2 by blast
  from N h2 have r4: "\<exists>tc. tc \<noteq> [] \<and> lookup (snd (convert_file_by_name_get heading_converter
          example_uuid 5 ''a.txt'' None example_fs)) (CONVERTED_DIR @ [''a_3f2a9c1e.md''])
        = Some (File tc 5)"
    unfolding n2 by blast
  from N h3 h4 have r5: "converted_filename (fst (convert_file heading_converter example_uuid 5
          ''b.tar.gz'' ''hello'' None example_fs)) = Some ''b.tar_3f2a9c1e.md''"
    unfolding n3 by blast
  from N h3 h4 have r6: "\<exists>tc. tc \<noteq> [] \<and> lookup (snd (convert_file heading_converter
          example_uuid 5 ''b.tar.gz'' ''hello'' None example_fs))
          (CONVERTED_DIR @ [''b.tar_3f2a9c1e.md'']) = Some (File tc 5)"
    unfolding n3 by blast
  have s1: "Path_stem ''b.tar.gz'' = ''b.tar''"
    using R [THEN conjunct2, THEN conjunct2, THEN conjunct1] by simp
  have s2: "Path_stem ''README'' = ''README''"
    using N [THEN conjunct2, THEN conjunct2, THEN conjunct2, THEN conjunct1] by simp
  have s3: "Path_stem ''.bashrc'' = ''.bashrc''"
    using B [THEN conjunct2, THEN conjunct2, THEN conjunct2, THEN conjunct2, THEN conjunct1]
    by simp
  have s4: "Path_stem ''notes.'' = ''notes.''"
    using N [THEN conjunct2, THEN conjunct2, THEN conjunct2, THEN conjunct2, THEN conjunct2,
        THEN conjunct1] by simp
  have s5: "Path_stem ''x/b.tar.gz'' = Path_stem ''b.tar.gz''"
    using R [THEN conjunct2, THEN conjunct2, THEN conjunct2, THEN conjunct2, THEN conjunct2,
        THEN conjunct2, THEN conjunct1] by simp
  from R b1 have t1: "unique_id_of example_uuid = unique_id_of (example_uuid + 1)" by blast
  from N b2 have t2: "unique_id_of example_uuid \<noteq> unique_id_of 0" by blast
  from g0 h1 h2 h3 h4 r1 r2 r3 r4 r5 r6 s1 s2 s3 s4 s5 t1 t2 show ?thesis by (intro conjI)
qed

text \<open>
  C7. When the converter returns no result or an empty text, a conversion by file name
  answers 422 and leaves the whole file system unchanged; \<open>POST /convert\<close> answers 422 and
  leaves every path below \<open>Converted\<close> unchanged (with \<open>Uploads\<close> free of subdirectories, so
  that the temporary file lies in \<open>Uploads\<close>).
\<close>

theorem C7_empty_output_422:
  "(file_name \<noteq> [] \<and> path_is_file fs (path_div UPLOAD_DIR (basename file_name))
      \<and> empty_outcome (md fs (path_div UPLOAD_DIR (basename file_name))) \<longrightarrow>
        status_code (fst (convert_file_by_name md u now file_name ofn fs)) = 422
      \<and> snd (convert_file_by_name md u now file_name ofn fs) = fs
      \<and> status_code (fst (convert_file_by_name_get md u now file_name ofn fs)) = 422
      \<and> snd (convert_file_by_name_get md u now file_name ofn fs) = fs)
   \<and> (filename \<noteq> [] \<and> no_subdirs fs UPLOAD_DIR
      \<and> write_file fs (path_div UPLOAD_DIR (unique_id_of u @ ''_'' @ filename)) content now
          = Inr fs1
      \<and> empty_outcome (md fs1 (path_div UPLOAD_DIR (unique_id_of u @ ''_'' @ filename))) \<longrightarrow>
        status_code (fst (convert_file md u now filename content ofn fs)) = 422
      \<and> (\<forall>p. take (length CONVERTED_DIR) p = CONVERTED_DIR \<longrightarrow>
             lookup (snd (convert_file md u now filename content ofn fs)) p = lookup fs p))"
proof -
  have a: "file_name \<noteq> [] \<and> path_is_file fs (path_div UPLOAD_DIR (basename file_name))
      \<and> empty_outcome (md fs (path_div UPLOAD_DIR (basename file_name))) \<longrightarrow>
        status_code (fst (convert_file_by_name md u now file_name ofn fs)) = 422
      \<and> snd (convert_file_by_name md u now file_name ofn fs) = fs"
    by (simp add: by_name_empty)
  have b: "filename \<noteq> [] \<and> no_subdirs fs UPLOAD_DIR
      \<and> write_file fs (path_div UPLOAD_DIR (unique_id_of u @ ''_'' @ filename)) content now
          = Inr fs1
      \<and> empty_outcome (md fs1 (path_div UPLOAD_DIR (unique_id_of u @ ''_'' @ filename))) \<longrightarrow>
        status_code (fst (convert_file md u now filename content ofn fs)) = 422
      \<and> (\<forall>p. take (length CONVERTED_DIR) p = CONVERTED_DIR \<longrightarrow>
             lookup (snd (convert_file md u now filename content ofn fs)) p = lookup fs p)"
  proof (intro impI, elim conjE)
    assume ne: "filename \<noteq> []" and flat: "no_subdirs fs UPLOAD_DIR"
      and w: "write_file fs (path_div UPLOAD_DIR (unique_id_of u @ ''_'' @ filename)) content now
          = Inr fs1"
      and em: "empty_outcome (md fs1 (path_div UPLOAD_DIR (unique_id_of u @ ''_'' @ filename)))"
    have l: "length CONVERTED_DIR = 2" by (simp add: CONVERTED_DIR_def)
    from convert_file_empty [where md = md, OF ne flat w em] show
      "status_code (fst (convert_file md u now filename content ofn fs)) = 422
      \<and> (\<forall>p. take (length CONVERTED_DIR) p = CONVERTED_DIR \<longrightarrow>
             lookup (snd (convert_file md u now filename content ofn fs)) p = lookup fs p)"
      unfolding l by simp
  qed
  from a b show ?thesis unfolding convert_file_by_name_get_eq by blast
qed

theorem C7_witness:
  "''a.txt'' \<noteq> []
   \<and> path_is_file example_fs (path_div UPLOAD_DIR (basename ''a.txt''))
   \<and> empty_outcome (empty_converter example_fs (path_div UPLOAD_DIR (basename ''a.txt'')))
   \<and> no_subdirs example_fs UPLOAD_DIR
   \<and> write_file example_fs (path_div UPLOAD_DIR (unique_id_of example_uuid @ ''_'' @ ''a.txt''))
        ''hello'' 5
      = Inr (example_fs @ [([''app'', ''uploads'', ''3f2a9c1e_a.txt''], File ''hello'' 5)])
   \<and> empty_outcome (empty_converter
        (example_fs @ [([''app'', ''uploads'', ''3f2a9c1e_a.txt''], File ''hello'' 5)])
        (path_div UPLOAD_DIR (unique_id_of example_uuid @ ''_'' @ ''a.txt'')))
   \<and> status_code (fst (convert_file_by_name empty_converter example_uuid 5 ''a.txt'' None
        example_fs)) = 422
   \<and> snd (convert_file_by_name empty_converter example_uuid 5 ''a.txt'' None example_fs)
      = example_fs
   \<and> status_code (fst (convert_file_by_name_get empty_converter example_uuid 5 ''a.txt'' None
        example_fs)) = 422
   \<and> status_code (fst (convert_file empty_converter example_uuid 5 ''a.txt'' ''hello'' None
        example_fs)) = 422
   \<and> lookup (snd (convert_file empty_converter example_uuid 5 ''a.txt'' ''hello'' None
        example_fs)) (CONVERTED_DIR @ [''a_3f2a9c1e.md''])
      = lookup example_fs (CONVERTED_DIR @ [''a_3f2a9c1e.md''])"
proof -
  have h1: "''a.txt'' \<noteq> []" by simp
  have h2: "path_is_file example_fs (path_div UPLOAD_DIR (basename ''a.txt''))" by code_simp
  have h3: "empty_outcome (empty_converter example_fs (path_div UPLOAD_DIR (basename ''a.txt'')))"
    by (simp add: empty_outcome_def empty_converter_def)
  have h4: "no_subdirs example_fs UPLOAD_DIR" by code_simp
  have h5: "write_file example_fs
        (path_div UPLOAD_DIR (unique_id_of example_uuid @ ''_'' @ ''a.txt'')) ''hello'' 5
      = Inr (example_fs @ [([''app'', ''uploads'', ''3f2a9c1e_a.txt''], File ''hello'' 5)])"
    by code_simp
  have h6: "empty_outcome (empty_converter
        (example_fs @ [([''app'', ''uploads'', ''3f2a9c1e_a.txt''], File ''hello'' 5)])
        (path_div UPLOAD_DIR (unique_id_of example_uuid @ ''_'' @ ''a.txt'')))"
    by (simp add: empty_outcome_def empty_converter_def)
  have p: "take (length CONVERTED_DIR) (CONVERTED_DIR @ [''a_3f2a9c1e.md'']) = CONVERTED_DIR"
    by simp
  note T = C7_empty_output_422 [where md = empty_converter and u = example_uuid and now = 5
      and file_name = "''a.txt''" and fs = example_fs and filename = "''a.txt''"
      and content = "''hello''" and ofn = None
      and ?fs1.0 = "example_fs @ [([''app'', ''uploads'', ''3f2a9c1e_a.txt''], File ''hello'' 5)]"]
  from T h1 h2 h3 h4 h5 h6 p show ?thesis by blast
qed

text \<open>
  C8. Claimed: \<open>GET /list-converted\<close> returns exactly the regular files whose names end in
  \<open>.md\<close>. Evaluated here: with a subdirectory \<open>notes.md\<close> in \<open>Converted\<close> the listing reports
  \<open>notes.md\<close>, which is not a regular file; the listing of uploads, which tests \<open>is_file()\<close>,
  leaves the subdirectory \<open>d\<close> of \<open>Uploads\<close> out.
\<close>

theorem C8_directory_listed:
  "list_converted_files example_fs_dirs =
     JSONResponse 200 (ListBody [FileEntry ''notes.md'' 7 3 ''/download/notes.md''] 1)
   \<and> is_dir_node example_fs_dirs (CONVERTED_DIR @ [''notes.md''])
   \<and> \<not> path_is_file example_fs_dirs (CONVERTED_DIR @ [''notes.md''])
   \<and> listed_names (list_uploaded_files example_fs_dirs) = [''a.txt'']"
  by code_simp

text \<open>
  C9. A regular file of \<open>Converted\<close>, whatever its suffix, is served by the download handler
  (a file response for its path, whose content is the file's) and removed by the delete
  handler with status 200; when its name does not end in \<open>.md\<close> the listing does not report
  it.
\<close>

theorem C9_non_markdown_download_delete:
  assumes app: "is_dir_node fs [''app'']" and cv: "is_dir_node fs CONVERTED_DIR"
    and reg: "lookup fs (CONVERTED_DIR @ [name]) = Some (File data t)"
    and nm: "CHR ''/'' \<notin> set name" "name \<noteq> []" "name \<noteq> ''.''" "name \<noteq> ''..''"
  shows "download_converted_file name fs =
           FileResponse (CONVERTED_DIR @ [name]) name ''text/markdown''
       \<and> status_code (download_converted_file name fs) = 200
       \<and> read_file fs (CONVERTED_DIR @ [name]) = Some data
       \<and> delete_converted_file name fs =
           (JSONResponse 200 (MessageBody (''File '' @ name @ '' deleted successfully'')),
            AList.delete (CONVERTED_DIR @ [name]) fs)
       \<and> lookup (AList.delete (CONVERTED_DIR @ [name]) fs) (CONVERTED_DIR @ [name]) = None
       \<and> (\<not> endswith name ''.md'' \<longrightarrow> name \<notin> set (listed_names (list_converted_files fs)))"
proof -
  let ?p = "[''app'', ''converted'', name]"
  have cv': "is_dir_node fs [''app'', ''converted'']" using cv by (simp add: CONVERTED_DIR_def)
  have l: "lookup fs ?p = Some (File data t)" using reg by (simp add: CONVERTED_DIR_def)
  have p: "path_div CONVERTED_DIR name = ?p" "resolve fs ?p = Some ?p"
    using child_path [OF nm app cv'] by (simp_all add: CONVERTED_DIR_def)
  have ex: "path_exists fs ?p" by (simp add: path_exists_def p(2) l)
  have a: "download_converted_file name fs = FileResponse ?p name ''text/markdown''"
    using ex by (simp add: download_converted_file_def p(1) Let_def)
  have b: "read_file fs ?p = Some data" by (simp add: read_file_def p(2) l)
  have ul: "unlink fs ?p = Inr (AList.delete ?p fs)" by (simp add: unlink_def p(2) l)
  have c: "delete_converted_file name fs =
      (JSONResponse 200 (MessageBody (''File '' @ name @ '' deleted successfully'')),
       AList.delete ?p fs)"
    using ex ul by (simp add: delete_converted_file_def p(1) Let_def)
  have d: "lookup (AList.delete ?p fs) ?p = None" by (simp add: lookup_delete)
  have e: "\<not> endswith name ''.md'' \<longrightarrow> name \<notin> set (listed_names (list_converted_files fs))"
    using listed_names_md [of name fs] by blast
  from a b c d e show ?thesis by (simp add: CONVERTED_DIR_def)
qed

theorem C9_witness:
  "is_dir_node example_fs_dirs [''app''] \<and> is_dir_node example_fs_dirs CONVERTED_DIR
   \<and> lookup example_fs_dirs (CONVERTED_DIR @ [''raw.txt'']) = Some (File ''abc'' 4)
   \<and> \<not> endswith ''raw.txt'' ''.md''
   \<and> status_code (download_converted_file ''raw.txt'' example_fs_dirs) = 200
   \<and> read_file example_fs_dirs (CONVERTED_DIR @ [''raw.txt'']) = Some ''abc''
   \<and> status_code (fst (delete_converted_file ''raw.txt'' example_fs_dirs)) = 200
   \<and> lookup (snd (delete_converted_file ''raw.txt'' example_fs_dirs))
        (CONVERTED_DIR @ [''raw.txt'']) = None
   \<and> ''raw.txt'' \<notin> set (listed_names (list_converted_files example_fs_dirs))"
proof -
  have h1: "is_dir_node example_fs_dirs [''app'']" by code_simp
  have h2: "is_dir_node example_fs_dirs CONVERTED_DIR" by code_simp
  have h3: "lookup example_fs_dirs (CONVERTED_DIR @ [''raw.txt'']) = Some (File ''abc'' 4)"
    by code_simp
  have h4: "CHR ''/'' \<notin> set ''raw.txt''" "''raw.txt'' \<noteq> []" "''raw.txt'' \<noteq> ''.''"
    "''raw.txt'' \<noteq> ''..''" by simp_all
  have h5: "\<not> endswith ''raw.txt'' ''.md''" by code_simp
  from C9_non_markdown_download_delete [OF h1 h2 h3 h4] h1 h2 h3 h5
  show ?thesis by simp
qed

text \<open>
  C10. An empty \<open>output_filename\<close> behaves as an omitted one in the three conversion
  handlers: same response, same file system. The output name is then
  \<open>{stem}_{token}.md\<close>, which is never \<open>.md\<close>.
\<close>

theorem C10_empty_override_is_default:
  "convert_file_by_name md_convert uuid4 now file_name (Some []) fs =
     convert_file_by_name md_convert uuid4 now file_name None fs
   \<and> convert_file_by_name_get md_convert uuid4 now file_name (Some []) fs =
     convert_file_by_name_get md_convert uuid4 now file_name None fs
   \<and> convert_file md_convert uuid4 now filename content (Some []) fs =
     convert_file md_convert uuid4 now filename content None fs
   \<and> md_filename_of (Some []) stem tok = stem @ ''_'' @ tok @ ''.md''
   \<and> md_filename_of (Some []) stem tok \<noteq> ''.md''"
proof -
  have a: "convert_file_by_name md_convert uuid4 now file_name (Some []) fs =
     convert_file_by_name md_convert uuid4 now file_name None fs"
    unfolding convert_file_by_name_def convert_file_by_name_try_def md_filename_empty ..
  have b: "convert_file_by_name_get md_convert uuid4 now file_name (Some []) fs =
     convert_file_by_name_get md_convert uuid4 now file_name None fs"
    unfolding convert_file_by_name_get_def convert_file_by_name_get_try_def md_filename_empty ..
  have c: "convert_file md_convert uuid4 now filename content (Some []) fs =
     convert_file md_convert uuid4 now filename content None fs"
    unfolding convert_file_def convert_file_try_def md_filename_empty ..
  have d: "md_filename_of (Some []) stem tok = stem @ ''_'' @ tok @ ''.md''"
    by (simp add: md_filename_of_def)
  have "length (md_filename_of (Some []) stem tok) \<noteq> length ''.md''"
    by (simp add: md_filename_of_def)
  then have e: "md_filename_of (Some []) stem tok \<noteq> ''.md''" by metis
  from a b c d e show ?thesis by blast
qed

end
